theory Spec2Isabelle
  imports Complex_Main "HOL-Library.Sublist" "HOL-Library.AList"
begin

section \<open>Python values\<close>

text \<open>
  A Python \<open>str\<close> is a sequence of Unicode code points.  The program's column labels and
  its list of excluded category names are Japanese, so a string is modelled as the list of
  its code points (natural numbers); \<open>ascii\<close> writes an ASCII literal that way.
\<close>

type_synonym pystr = "nat list"

definition ascii :: "string \<Rightarrow> pystr" where
  "ascii s = map of_char s"

text \<open>
  What \<open>res.json()\<close> returns: \<open>None\<close>, \<open>bool\<close>, \<open>int\<close> (unbounded), \<open>float\<close>
  (a finite one, by its value), \<open>str\<close>, \<open>list\<close>, or \<open>dict\<close>.  A \<open>dict\<close> is the
  association list of its items in insertion order; a key is looked up with \<open>map_of\<close>.
\<close>

datatype json =
    JNull
  | JBool bool
  | JInt int
  | JFloat rat
  | JStr pystr
  | JArr "json list"
  | JObj "(pystr \<times> json) list"

text \<open>The exceptions that the modelled statements raise.\<close>

datatype pyerr =
    RequestException
  | JSONDecodeError
  | TypeError
  | KeyError
  | AttributeError
  | ValueError
  | OverflowError
  | OtherError

text \<open>
  \<open>k in x\<close> for a string \<open>k\<close>: key membership in a dict, element membership in a list,
  substring test on a str, and a \<open>TypeError\<close> on \<open>None\<close>, a bool or a number.
\<close>

fun contains :: "pystr \<Rightarrow> json \<Rightarrow> pyerr + bool" where
  "contains k (JObj kvs) = Inr (map_of kvs k \<noteq> None)"
| "contains k (JArr xs) = Inr (JStr k \<in> set xs)"
| "contains k (JStr s) = Inr (sublist k s)"
| "contains k JNull = Inl TypeError"
| "contains k (JBool b) = Inl TypeError"
| "contains k (JInt n) = Inl TypeError"
| "contains k (JFloat q) = Inl TypeError"

text \<open>
  \<open>x[k]\<close> for a string \<open>k\<close>: the value in a dict (\<open>KeyError\<close> when the key is missing);
  a list and a str take integer indices only, and the other values are not subscriptable
  (\<open>TypeError\<close>).
\<close>

fun getitem :: "json \<Rightarrow> pystr \<Rightarrow> pyerr + json" where
  "getitem (JObj kvs) k = (case map_of kvs k of None \<Rightarrow> Inl KeyError | Some v \<Rightarrow> Inr v)"
| "getitem (JArr xs) k = Inl TypeError"
| "getitem (JStr s) k = Inl TypeError"
| "getitem JNull k = Inl TypeError"
| "getitem (JBool b) k = Inl TypeError"
| "getitem (JInt n) k = Inl TypeError"
| "getitem (JFloat q) k = Inl TypeError"

text \<open>
  \<open>for row in x\<close>: the elements of a list, the keys of a dict, the one-character strings of
  a str; \<open>iter\<close> raises \<open>TypeError\<close> on anything else, before the first round of the loop.
\<close>

fun py_iter :: "json \<Rightarrow> pyerr + json list" where
  "py_iter (JArr xs) = Inr xs"
| "py_iter (JObj kvs) = Inr (map (\<lambda>kv. JStr (fst kv)) kvs)"
| "py_iter (JStr s) = Inr (map (\<lambda>c. JStr [c]) s)"
| "py_iter JNull = Inl TypeError"
| "py_iter (JBool b) = Inl TypeError"
| "py_iter (JInt n) = Inl TypeError"
| "py_iter (JFloat q) = Inl TypeError"

text \<open>\<open>status == 0\<close>: true for the numbers 0 and 0.0 and for \<open>False\<close>, false otherwise.\<close>

fun eq_zero :: "json \<Rightarrow> bool" where
  "eq_zero (JInt n) = (n = 0)"
| "eq_zero (JFloat q) = (q = 0)"
| "eq_zero (JBool b) = (\<not> b)"
| "eq_zero JNull = False"
| "eq_zero (JStr s) = False"
| "eq_zero (JArr xs) = False"
| "eq_zero (JObj kvs) = False"


section \<open>The fetch loop (app.py, lines 90 to 159)\<close>

text \<open>
  The variables the loop updates: \<open>data_list\<close>, \<open>result\<close> (\<open>None\<close> at first) and the
  three counters.
\<close>

record loop_state =
  data_list :: "json list"
  result :: "json option"
  processed_count :: nat
  error_count :: nat
  skipped_count :: nat

definition init_state :: loop_state where
  "init_state = \<lparr>data_list = [], result = None, processed_count = 0, error_count = 0,
     skipped_count = 0\<rparr>"

text \<open>
  What the three statements \<open>requests.get\<close>, \<open>res.raise_for_status()\<close> and \<open>res.json()\<close>
  yield for one HS code: an exception, or the decoded body.
\<close>

datatype reply = Raises pyerr | Returns json

text \<open>
  Line 116: \<open>'RESULT' not in api_result or 'STATUS' not in api_result['RESULT']\<close>, with the
  short circuit of \<open>or\<close>.
\<close>

definition no_status :: "json \<Rightarrow> pyerr + bool" where
  "no_status api_result =
     (case contains (ascii ''RESULT'') api_result of
        Inl e \<Rightarrow> Inl e
      | Inr b \<Rightarrow>
          if \<not> b then Inr True
          else (case getitem api_result (ascii ''RESULT'') of
                  Inl e \<Rightarrow> Inl e
                | Inr res \<Rightarrow>
                    (case contains (ascii ''STATUS'') res of
                       Inl e \<Rightarrow> Inl e
                     | Inr b' \<Rightarrow> Inr (\<not> b'))))"

text \<open>Line 121: \<open>api_result['RESULT']['STATUS']\<close>.\<close>

definition get_status :: "json \<Rightarrow> pyerr + json" where
  "get_status api_result =
     (case getitem api_result (ascii ''RESULT'') of
        Inl e \<Rightarrow> Inl e
      | Inr res \<Rightarrow> getitem res (ascii ''STATUS''))"

text \<open>
  Line 124: \<open>'STATISTICAL_DATA' in api_result and 'DATA_INF' in
  api_result['STATISTICAL_DATA'] and 'VALUE' in api_result['STATISTICAL_DATA']['DATA_INF']\<close>,
  with the short circuit of \<open>and\<close>.
\<close>

definition has_value :: "json \<Rightarrow> pyerr + bool" where
  "has_value api_result =
     (case contains (ascii ''STATISTICAL_DATA'') api_result of
        Inl e \<Rightarrow> Inl e
      | Inr b1 \<Rightarrow>
          if \<not> b1 then Inr False
          else (case getitem api_result (ascii ''STATISTICAL_DATA'') of
                  Inl e \<Rightarrow> Inl e
                | Inr sd \<Rightarrow>
                    (case contains (ascii ''DATA_INF'') sd of
                       Inl e \<Rightarrow> Inl e
                     | Inr b2 \<Rightarrow>
                         if \<not> b2 then Inr False
                         else (case getitem sd (ascii ''DATA_INF'') of
                                 Inl e \<Rightarrow> Inl e
                               | Inr di \<Rightarrow> contains (ascii ''VALUE'') di))))"

text \<open>Line 125: \<open>api_result['STATISTICAL_DATA']['DATA_INF']['VALUE']\<close>.\<close>

definition get_value :: "json \<Rightarrow> pyerr + json" where
  "get_value api_result =
     (case getitem api_result (ascii ''STATISTICAL_DATA'') of
        Inl e \<Rightarrow> Inl e
      | Inr sd \<Rightarrow>
          (case getitem sd (ascii ''DATA_INF'') of
             Inl e \<Rightarrow> Inl e
           | Inr di \<Rightarrow> getitem di (ascii ''VALUE'')))"

text \<open>Lines 126 and 127: \<open>data_list.append(row)\<close> for each row in turn.\<close>

fun append_rows :: "json list \<Rightarrow> json list \<Rightarrow> json list" where
  "append_rows dl [] = dl"
| "append_rows dl (row # rows) = append_rows (dl @ [row]) rows"

text \<open>
  Lines 109 to 143, the body of the \<open>try\<close> after \<open>res.json()\<close>.  The result is the state
  at the end of the round, or the exception that left the body together with the state at
  that moment.  The calls to \<open>st.warning\<close> only display a message; the reads that build
  their messages (lines 133 and 140) are on \<open>api_result['RESULT']\<close>, a dict on those paths,
  and cannot raise.
\<close>

definition try_body :: "json \<Rightarrow> loop_state \<Rightarrow> (pyerr \<times> loop_state) + loop_state" where
  "try_body result_json s =
     (case contains (ascii ''GET_STATS_DATA'') result_json of
        Inl e \<Rightarrow> Inl (e, s)
      | Inr b \<Rightarrow>
          if \<not> b then Inr (s\<lparr>skipped_count := skipped_count s + 1\<rparr>)
          else
     (case getitem result_json (ascii ''GET_STATS_DATA'') of
        Inl e \<Rightarrow> Inl (e, s)
      | Inr api_result \<Rightarrow>
     (case no_status api_result of
        Inl e \<Rightarrow> Inl (e, s)
      | Inr m \<Rightarrow>
          if m then Inr (s\<lparr>skipped_count := skipped_count s + 1\<rparr>)
          else
     (case get_status api_result of
        Inl e \<Rightarrow> Inl (e, s)
      | Inr status \<Rightarrow>
          if eq_zero status then
            (case has_value api_result of
               Inl e \<Rightarrow> Inl (e, s)
             | Inr hv \<Rightarrow>
                 if hv then
                   (case get_value api_result of
                      Inl e \<Rightarrow> Inl (e, s)
                    | Inr response_value \<Rightarrow>
                        (case py_iter response_value of
                           Inl e \<Rightarrow> Inl (e, s)
                         | Inr rows \<Rightarrow>
                             Inr (s\<lparr>data_list := append_rows (data_list s) rows,
                                    result := Some result_json,
                                    processed_count := processed_count s + 1\<rparr>)))
                 else Inr (s\<lparr>skipped_count := skipped_count s + 1\<rparr>))
          else Inr (s\<lparr>error_count := error_count s + 1\<rparr>)))))"

text \<open>
  Lines 145 to 156, the three \<open>except\<close> clauses in their order:
  \<open>requests.exceptions.RequestException\<close>, \<open>json.JSONDecodeError\<close>, \<open>Exception\<close>.
\<close>

fun handler :: "pyerr \<Rightarrow> loop_state \<Rightarrow> loop_state" where
  "handler RequestException s = s\<lparr>error_count := error_count s + 1\<rparr>"
| "handler JSONDecodeError s = s\<lparr>error_count := error_count s + 1\<rparr>"
| "handler e s = s\<lparr>error_count := error_count s + 1\<rparr>"

text \<open>One round of the loop, for one HS code and what the API call yields for it.\<close>

definition iteration :: "loop_state \<Rightarrow> pystr \<times> reply \<Rightarrow> loop_state" where
  "iteration s cr =
     (case snd cr of
        Raises e \<Rightarrow> handler e s
      | Returns result_json \<Rightarrow>
          (case try_body result_json s of
             Inl (e, s') \<Rightarrow> handler e s'
           | Inr s' \<Rightarrow> s'))"

fun fetch_loop :: "loop_state \<Rightarrow> (pystr \<times> reply) list \<Rightarrow> loop_state" where
  "fetch_loop s [] = s"
| "fetch_loop s (cr # crs) = fetch_loop (iteration s cr) crs"

text \<open>
  The branch of the loop body that a reply takes, under the names of the specification's
  outcomes; \<open>UnexpectedError\<close> is the last handler (\<open>except Exception\<close>).
\<close>

datatype outcome =
    Success "json list"
  | EmptyResult
  | MalformedResponse
  | ApiError
  | TransportError
  | ParseError
  | UnexpectedError

definition body_outcome :: "json \<Rightarrow> pyerr + outcome" where
  "body_outcome result_json =
     (case contains (ascii ''GET_STATS_DATA'') result_json of
        Inl e \<Rightarrow> Inl e
      | Inr b \<Rightarrow>
          if \<not> b then Inr MalformedResponse
          else
     (case getitem result_json (ascii ''GET_STATS_DATA'') of
        Inl e \<Rightarrow> Inl e
      | Inr api_result \<Rightarrow>
     (case no_status api_result of
        Inl e \<Rightarrow> Inl e
      | Inr m \<Rightarrow>
          if m then Inr MalformedResponse
          else
     (case get_status api_result of
        Inl e \<Rightarrow> Inl e
      | Inr status \<Rightarrow>
          if \<not> eq_zero status then Inr ApiError
          else
     (case has_value api_result of
        Inl e \<Rightarrow> Inl e
      | Inr hv \<Rightarrow>
          if \<not> hv then Inr EmptyResult
          else
     (case get_value api_result of
        Inl e \<Rightarrow> Inl e
      | Inr response_value \<Rightarrow>
     (case py_iter response_value of
        Inl e \<Rightarrow> Inl e
      | Inr rows \<Rightarrow> Inr (Success rows))))))))"

fun error_outcome :: "pyerr \<Rightarrow> outcome" where
  "error_outcome RequestException = TransportError"
| "error_outcome JSONDecodeError = ParseError"
| "error_outcome e = UnexpectedError"



text \<open>The counter that the specification's Aggregator gives each outcome.\<close>

datatype counter = Processed | Skipped | Errored

fun counter_of :: "outcome \<Rightarrow> counter" where
  "counter_of (Success rows) = Processed"
| "counter_of EmptyResult = Skipped"
| "counter_of MalformedResponse = Skipped"
| "counter_of ApiError = Errored"
| "counter_of TransportError = Errored"
| "counter_of ParseError = Errored"
| "counter_of UnexpectedError = Errored"

fun bump :: "counter \<Rightarrow> loop_state \<Rightarrow> loop_state" where
  "bump Processed s = s\<lparr>processed_count := processed_count s + 1\<rparr>"
| "bump Skipped s = s\<lparr>skipped_count := skipped_count s + 1\<rparr>"
| "bump Errored s = s\<lparr>error_count := error_count s + 1\<rparr>"

text \<open>The state after a round that took the branch \<open>oc\<close> on the body \<open>j\<close>.\<close>

definition settle :: "json \<Rightarrow> loop_state \<Rightarrow> outcome \<Rightarrow> loop_state" where
  "settle j s oc =
     (case oc of
        Success rows \<Rightarrow>
          (bump Processed s)\<lparr>data_list := data_list s @ rows, result := Some j\<rparr>
      | _ \<Rightarrow> bump (counter_of oc) s)"


text \<open>Sample responses, for evaluating the loop.\<close>

definition envelope :: "json \<Rightarrow> (pystr \<times> json) list \<Rightarrow> json" where
  "envelope status rest =
     JObj [(ascii ''GET_STATS_DATA'',
            JObj ((ascii ''RESULT'', JObj [(ascii ''STATUS'', status)]) # rest))]"

definition with_value :: "json \<Rightarrow> json" where
  "with_value v =
     envelope (JInt 0)
       [(ascii ''STATISTICAL_DATA'', JObj [(ascii ''DATA_INF'', JObj [(ascii ''VALUE'', v)])])]"

definition row1 :: json where
  "row1 =
     JObj [(ascii ''@cat01'', JStr (ascii ''010121010'')), (ascii ''$'', JStr (ascii ''12345''))]"




section \<open>Tables\<close>

text \<open>
  A cell of a pandas table: a missing value (\<open>NaN\<close>, \<open>pd.NA\<close>, \<open>NaT\<close>), a Python value
  that came out of the JSON (an entry of an \<open>Int64\<close> column is a \<open>JInt\<close>), or a
  timestamp (year, month, day).  \<open>isna\<close> is pandas' test for a missing value, which holds
  for \<open>None\<close> too.
\<close>

datatype cell = NaN | Py json | Timestamp int nat nat

fun isna :: "cell \<Rightarrow> bool" where
  "isna NaN = True"
| "isna (Py j) = (j = JNull)"
| "isna (Timestamp y m d) = False"

text \<open>
  A table is its list of column labels and its rows; a row is the association list of its
  cells by label, and a label without an entry reads as \<open>NaN\<close>.
\<close>

type_synonym row = "(pystr \<times> cell) list"

record frame =
  columns :: "pystr list"
  rws :: "row list"

definition cell_at :: "row \<Rightarrow> pystr \<Rightarrow> cell" where
  "cell_at r c = (case map_of r c of None \<Rightarrow> NaN | Some v \<Rightarrow> v)"

definition column :: "frame \<Rightarrow> pystr \<Rightarrow> cell list" where
  "column df c = map (\<lambda>r. cell_at r c) (rws df)"

definition empty_frame :: "pystr list \<Rightarrow> frame" where
  "empty_frame cs = \<lparr>columns = cs, rws = []\<rparr>"

text \<open>
  The column labels of the program, by their code points: HS code, item, year, category
  name, country code, country name, customs office code, customs office, value (amount,
  quantity), unit, category code, year code, parent code, month, category, month number,
  year and month.
\<close>

definition HS_code :: pystr where
  "HS_code = [0x48, 0x53, 0x30B3, 0x30FC, 0x30C9]"

definition hinmoku :: pystr where
  "hinmoku = [0x54C1, 0x76EE]"

definition nen :: pystr where
  "nen = [0x5E74]"

definition kubun_mei :: pystr where
  "kubun_mei = [0x533A, 0x5206, 0x540D]"

definition kuni_code :: pystr where
  "kuni_code = [0x56FD, 0x30B3, 0x30FC, 0x30C9]"

definition kuni_mei :: pystr where
  "kuni_mei = [0x56FD, 0x540D]"

definition zeikan_code :: pystr where
  "zeikan_code = [0x7A0E, 0x95A2, 0x30B3, 0x30FC, 0x30C9]"

definition zeikan :: pystr where
  "zeikan = [0x7A0E, 0x95A2]"

definition atai :: pystr where
  "atai = [0x5024, 0xFF08, 0x91D1, 0x984D, 0x3001, 0x6570, 0x91CF, 0xFF09]"

definition tani :: pystr where
  "tani = [0x5358, 0x4F4D]"

definition kubun_code :: pystr where
  "kubun_code = [0x533A, 0x5206, 0x30B3, 0x30FC, 0x30C9]"

definition nen_code :: pystr where
  "nen_code = [0x5E74, 0x30B3, 0x30FC, 0x30C9]"

definition oya_code :: pystr where
  "oya_code = [0x89AA, 0x30B3, 0x30FC, 0x30C9]"

definition tsuki :: pystr where
  "tsuki = [0x6708]"

definition kubun :: pystr where
  "kubun = [0x533A, 0x5206]"

definition tsuki_suuchi :: pystr where
  "tsuki_suuchi = [0x6708, 0x6570, 0x5024]"

definition nengetsu :: pystr where
  "nengetsu = [0x5E74, 0x6708]"

text \<open>
  pandas is not part of the repository.  What its documentation fixes is defined below;
  the behaviour that depends on its version or on the types it infers is a parameter of the
  model, and every theorem holds for every value of it:
  \<^item> \<open>repr\<close>: \<open>str(x)\<close> for a cell that is not a str (what \<open>astype(str)\<close> writes);
  \<^item> \<open>other_frame\<close>: \<open>pd.DataFrame(x)\<close> for an \<open>x\<close> that is not a list of dicts;
  \<^item> \<open>digit\<close>: the value of a code point that the pattern \<open>\d\<close> matches;
  \<^item> \<open>year_of\<close>: \<open>pd.to_numeric(..., errors='coerce').astype('Int64')\<close> on one entry;
  \<^item> \<open>to_datetime\<close>: \<open>pd.to_datetime(column, errors='coerce')\<close> on one entry of a column;
  \<^item> \<open>to_numeric\<close>: \<open>pd.to_numeric(column, errors='coerce')\<close> on one entry of a column;
  \<^item> \<open>to_datetime_strict\<close>: \<open>pd.to_datetime(column)\<close> on one entry of a column;
  \<^item> \<open>merge_error\<close>: the exception of \<open>pd.merge\<close> on two key columns that it refuses;
  \<^item> \<open>isin_error\<close>: the exception of \<open>Series.isin\<close> on a column that it refuses.
\<close>

record lib =
  repr :: "cell \<Rightarrow> pystr"
  other_frame :: "json \<Rightarrow> pyerr + frame"
  digit :: "nat \<Rightarrow> nat option"
  year_of :: "pystr \<Rightarrow> pyerr + cell"
  to_datetime :: "pystr list \<Rightarrow> pystr \<Rightarrow> cell"
  to_numeric :: "cell list \<Rightarrow> cell \<Rightarrow> pyerr + cell"
  to_datetime_strict :: "cell list \<Rightarrow> cell \<Rightarrow> pyerr + cell"
  merge_error :: "cell list \<Rightarrow> cell list \<Rightarrow> pyerr option"
  isin_error :: "cell list \<Rightarrow> pyerr option"

definition and_then :: "'e + 'a \<Rightarrow> ('a \<Rightarrow> 'e + 'b) \<Rightarrow> 'e + 'b" where
  "and_then x f = (case x of Inl e \<Rightarrow> Inl e | Inr v \<Rightarrow> f v)"

text \<open>An operation on every entry of a column raises the first exception of an entry.\<close>

fun first_error :: "('a \<Rightarrow> pyerr + 'b) \<Rightarrow> 'a list \<Rightarrow> pyerr option" where
  "first_error f [] = None"
| "first_error f (x # xs) = (case f x of Inl e \<Rightarrow> Some e | Inr v \<Rightarrow> first_error f xs)"

definition value_of :: "pyerr + cell \<Rightarrow> cell" where
  "value_of x = (case x of Inl e \<Rightarrow> NaN | Inr v \<Rightarrow> v)"

text \<open>\<open>Series.unique()\<close>: the distinct values in the order of their first occurrence.\<close>

definition unique :: "'a list \<Rightarrow> 'a list" where
  "unique xs = rev (remdups (rev xs))"

text \<open>
  \<open>pd.DataFrame(x)\<close> for a list of dicts: the columns are the keys in the order of their
  first occurrence, and each dict is a row.
\<close>

fun is_dict :: "json \<Rightarrow> bool" where
  "is_dict (JObj kvs) = True"
| "is_dict j = False"

fun dict_keys :: "json \<Rightarrow> pystr list" where
  "dict_keys (JObj kvs) = map fst kvs"
| "dict_keys j = []"

fun dict_row :: "json \<Rightarrow> row" where
  "dict_row (JObj kvs) = map (\<lambda>kv. (fst kv, Py (snd kv))) kvs"
| "dict_row j = []"

definition DataFrame :: "lib \<Rightarrow> json \<Rightarrow> pyerr + frame" where
  "DataFrame L x =
     (case x of
        JArr xs \<Rightarrow>
          if list_all is_dict xs
          then Inr \<lparr>columns = unique (concat (map dict_keys xs)), rws = map dict_row xs\<rparr>
          else other_frame L x
      | _ \<Rightarrow> other_frame L x)"

text \<open>\<open>df.rename(columns=m)\<close>.\<close>

definition new_name :: "(pystr \<times> pystr) list \<Rightarrow> pystr \<Rightarrow> pystr" where
  "new_name m c = (case map_of m c of None \<Rightarrow> c | Some c' \<Rightarrow> c')"

definition rename_cols :: "(pystr \<times> pystr) list \<Rightarrow> frame \<Rightarrow> frame" where
  "rename_cols m df =
     \<lparr>columns = map (new_name m) (columns df),
      rws = map (map (\<lambda>kv. (new_name m (fst kv), snd kv))) (rws df)\<rparr>"

text \<open>\<open>df[[c1, ..., cn]]\<close>: a \<open>KeyError\<close> when a label is not a column.\<close>

definition restrict_row :: "pystr list \<Rightarrow> row \<Rightarrow> row" where
  "restrict_row cs r = map (\<lambda>c. (c, cell_at r c)) cs"

definition select :: "pystr list \<Rightarrow> frame \<Rightarrow> pyerr + frame" where
  "select cs df =
     (if list_all (\<lambda>c. c \<in> set (columns df)) cs
      then Inr \<lparr>columns = cs, rws = map (restrict_row cs) (rws df)\<rparr>
      else Inl KeyError)"

text \<open>
  \<open>df[c] = values\<close>, where the values are computed row by row: the column is replaced in
  its place, or added as the last one.
\<close>

definition set_column :: "pystr \<Rightarrow> (row \<Rightarrow> cell) \<Rightarrow> frame \<Rightarrow> frame" where
  "set_column c f df =
     \<lparr>columns = (if c \<in> set (columns df) then columns df else columns df @ [c]),
      rws = map (\<lambda>r. AList.update c (f r) r) (rws df)\<rparr>"

text \<open>\<open>df.drop(cs, axis=1, errors='ignore')\<close>.\<close>

definition drop_cols :: "pystr list \<Rightarrow> frame \<Rightarrow> frame" where
  "drop_cols cs df =
     \<lparr>columns = filter (\<lambda>c. c \<notin> set cs) (columns df),
      rws = map (filter (\<lambda>kv. fst kv \<notin> set cs)) (rws df)\<rparr>"

text \<open>\<open>df.dropna(subset=cs)\<close>: the rows with a value in every column of \<open>cs\<close>.\<close>

definition dropna :: "pystr list \<Rightarrow> frame \<Rightarrow> frame" where
  "dropna cs df = df\<lparr>rws := filter (\<lambda>r. \<not> list_ex (\<lambda>c. isna (cell_at r c)) cs) (rws df)\<rparr>"

text \<open>
  \<open>astype(str)\<close> on one entry, \<open>.str.split('_', n=1)\<close> (the part before the first underscore,
  and the part after it when there is one).
\<close>

definition astype_str :: "lib \<Rightarrow> cell \<Rightarrow> pystr" where
  "astype_str L c = (case c of Py (JStr s) \<Rightarrow> s | _ \<Rightarrow> repr L c)"

definition split_first :: "pystr \<Rightarrow> pystr \<times> pystr option" where
  "split_first s =
     (takeWhile (\<lambda>c. c \<noteq> 0x5F) s,
      case dropWhile (\<lambda>c. c \<noteq> 0x5F) s of [] \<Rightarrow> None | u # rest \<Rightarrow> Some rest)"

text \<open>
  \<open>pd.merge(left, right, on=key, how='left')\<close>: a \<open>KeyError\<close> when the key is not a
  column of both tables; otherwise each left row once for every right row with its key,
  and once alone when there is none.  (A label that both tables have beside the key would
  get the suffixes \<open>_x\<close> and \<open>_y\<close>; the tables merged below share the key only.)
\<close>

definition join_row :: "pystr \<Rightarrow> row list \<Rightarrow> row \<Rightarrow> row list" where
  "join_row key rights l =
     (case filter (\<lambda>r. cell_at r key = cell_at l key) rights of
        [] \<Rightarrow> [l]
      | m # ms \<Rightarrow> map (\<lambda>r. l @ filter (\<lambda>kv. fst kv \<noteq> key) r) (m # ms))"

definition merge_left :: "lib \<Rightarrow> pystr \<Rightarrow> frame \<Rightarrow> frame \<Rightarrow> pyerr + frame" where
  "merge_left L key left right =
     (if key \<notin> set (columns left) \<or> key \<notin> set (columns right)
      then Inl KeyError
      else (case merge_error L (column left key) (column right key) of
              Some e \<Rightarrow> Inl e
            | None \<Rightarrow>
                Inr \<lparr>columns = columns left @ filter (\<lambda>c. c \<noteq> key) (columns right),
                     rws = concat (map (join_row key (rws right)) (rws left))\<rparr>))"

text \<open>\<open>df.drop_duplicates(subset=[key])\<close>: the first row of every key.\<close>

fun first_rows :: "pystr \<Rightarrow> cell list \<Rightarrow> row list \<Rightarrow> row list" where
  "first_rows key seen [] = []"
| "first_rows key seen (r # rs) =
     (if cell_at r key \<in> set seen then first_rows key seen rs
      else r # first_rows key (cell_at r key # seen) rs)"

definition drop_duplicates :: "pystr \<Rightarrow> frame \<Rightarrow> frame" where
  "drop_duplicates key df = df\<lparr>rws := first_rows key [] (rws df)\<rparr>"


section \<open>The HS code list (app.py, lines 73 to 87)\<close>

text \<open>\<open>str.isspace\<close> on one code point, and \<open>str.strip()\<close>.\<close>

definition isspace :: "nat \<Rightarrow> bool" where
  "isspace c =
     ((0x09 \<le> c \<and> c \<le> 0x0D) \<or> (0x1C \<le> c \<and> c \<le> 0x20) \<or> c = 0x85 \<or> c = 0xA0
      \<or> c = 0x1680 \<or> (0x2000 \<le> c \<and> c \<le> 0x200A) \<or> c = 0x2028 \<or> c = 0x2029
      \<or> c = 0x202F \<or> c = 0x205F \<or> c = 0x3000)"

definition strip :: "pystr \<Rightarrow> pystr" where
  "strip s = rev (dropWhile isspace (rev (dropWhile isspace s)))"

text \<open>
  Line 78, \<open>[code for code in hs_codes if pd.notna(code) and code.strip()]\<close>: a missing
  value is left out; a str is kept, as it is, when stripping leaves something; any other
  value has no \<open>strip\<close> (\<open>AttributeError\<close>).
\<close>

fun keep_codes :: "cell list \<Rightarrow> pyerr + pystr list" where
  "keep_codes [] = Inr []"
| "keep_codes (NaN # cs) = keep_codes cs"
| "keep_codes (Py JNull # cs) = keep_codes cs"
| "keep_codes (Py (JStr s) # cs) =
     (case keep_codes cs of
        Inl e \<Rightarrow> Inl e
      | Inr ks \<Rightarrow> Inr (if strip s \<noteq> [] then s # ks else ks))"
| "keep_codes (c # cs) = Inl AttributeError"

text \<open>
  The column of the HS codes is read with \<open>dtype=str\<close>: an entry is a str or is missing.
\<close>

fun str_or_missing :: "cell \<Rightarrow> bool" where
  "str_or_missing NaN = True"
| "str_or_missing (Py (JStr s)) = True"
| "str_or_missing c = False"

fun str_values :: "cell list \<Rightarrow> pystr list" where
  "str_values [] = []"
| "str_values (Py (JStr s) # cs) = s # str_values cs"
| "str_values (c # cs) = str_values cs"

text \<open>
  The ways the run ends without a table: the three \<open>st.stop()\<close> of the HS code list (no
  column of that label, line 75; no valid code, line 81; an exception, line 87), the one
  after the loop (no data, line 165), and an exception that no handler catches.
\<close>

datatype halt = NoCodeColumn | NoValidCode | CodeListError | NoData | Uncaught pyerr

definition read_codes :: "frame \<Rightarrow> halt + pystr list" where
  "read_codes df_hscode =
     (if HS_code \<notin> set (columns df_hscode) then Inl NoCodeColumn
      else (case keep_codes (unique (column df_hscode HS_code)) of
              Inl e \<Rightarrow> Inl CodeListError
            | Inr hs_codes \<Rightarrow> if hs_codes = [] then Inl NoValidCode else Inr hs_codes))"


section \<open>Metadata (app.py, lines 167 to 237)\<close>

text \<open>Lines 168 to 172, the renaming of the columns of the value rows.\<close>

definition value_columns :: "(pystr \<times> pystr) list" where
  "value_columns =
     [(ascii ''@cat01'', HS_code), (ascii ''@cat02'', kubun_code),
      (ascii ''@cat03'', zeikan_code), (ascii ''@area'', kuni_code),
      (ascii ''@time'', nen_code), (ascii ''$'', atai), (ascii ''@unit'', tani)]"

text \<open>
  Line 179: \<open>'GET_STATS_DATA' not in result or 'STATISTICAL_DATA' not in
  result['GET_STATS_DATA'] or 'CLASS_INF' not in
  result['GET_STATS_DATA']['STATISTICAL_DATA']\<close>.
\<close>

definition no_class_inf :: "json \<Rightarrow> pyerr + bool" where
  "no_class_inf res =
     and_then (contains (ascii ''GET_STATS_DATA'') res) (\<lambda>b1.
       if \<not> b1 then Inr True
       else and_then (getitem res (ascii ''GET_STATS_DATA'')) (\<lambda>api.
         and_then (contains (ascii ''STATISTICAL_DATA'') api) (\<lambda>b2.
           if \<not> b2 then Inr True
           else and_then (getitem api (ascii ''STATISTICAL_DATA'')) (\<lambda>sd.
             and_then (contains (ascii ''CLASS_INF'') sd) (\<lambda>b3. Inr (\<not> b3))))))"

text \<open>Line 183: \<open>result['GET_STATS_DATA']['STATISTICAL_DATA']['CLASS_INF']['CLASS_OBJ']\<close>.\<close>

definition get_class_objs :: "json \<Rightarrow> pyerr + json" where
  "get_class_objs res =
     and_then (getitem res (ascii ''GET_STATS_DATA'')) (\<lambda>api.
       and_then (getitem api (ascii ''STATISTICAL_DATA'')) (\<lambda>sd.
         and_then (getitem sd (ascii ''CLASS_INF'')) (\<lambda>ci.
           getitem ci (ascii ''CLASS_OBJ''))))"

text \<open>
  \<open>next((obj for obj in class_objs if obj['@id'] == ident), None)\<close>, and the truth value
  of an object in \<open>if cat02_obj and 'CLASS' in cat02_obj\<close>.
\<close>

fun find_class :: "pystr \<Rightarrow> json list \<Rightarrow> pyerr + json option" where
  "find_class ident [] = Inr None"
| "find_class ident (obj # objs) =
     (case getitem obj (ascii ''@id'') of
        Inl e \<Rightarrow> Inl e
      | Inr v \<Rightarrow> if v = JStr ident then Inr (Some obj) else find_class ident objs)"

fun truthy :: "json \<Rightarrow> bool" where
  "truthy JNull = False"
| "truthy (JBool b) = b"
| "truthy (JInt n) = (n \<noteq> 0)"
| "truthy (JFloat q) = (q \<noteq> 0)"
| "truthy (JStr s) = (s \<noteq> [])"
| "truthy (JArr xs) = (xs \<noteq> [])"
| "truthy (JObj kvs) = (kvs \<noteq> [])"

text \<open>
  Lines 185 to 205 for one classification: the table of its \<open>CLASS\<close> entries with the
  columns renamed and selected, or the empty table when the classification is not found.
\<close>

definition class_table ::
    "lib \<Rightarrow> json \<Rightarrow> pystr \<Rightarrow> (pystr \<times> pystr) list \<Rightarrow> pystr list \<Rightarrow> pyerr + frame" where
  "class_table L class_objs ident renaming cs =
     and_then (py_iter class_objs) (\<lambda>objs.
       and_then (find_class ident objs) (\<lambda>found.
         case found of
           None \<Rightarrow> Inr (empty_frame cs)
         | Some obj \<Rightarrow>
             if \<not> truthy obj then Inr (empty_frame cs)
             else and_then (contains (ascii ''CLASS'') obj) (\<lambda>b.
               if \<not> b then Inr (empty_frame cs)
               else and_then (getitem obj (ascii ''CLASS'')) (\<lambda>cls.
                 and_then (DataFrame L cls) (\<lambda>t.
                   select cs (rename_cols renaming t))))))"

text \<open>
  Line 214: \<open>df_country_shrink['...'].astype(str).str.split('_', n=1).str[1]\<close>, the second
  part of the split, which is missing when the name has no underscore.
\<close>

definition country_name :: "lib \<Rightarrow> cell \<Rightarrow> cell" where
  "country_name L c =
     (case snd (split_first (astype_str L c)) of
        None \<Rightarrow> NaN
      | Some rest \<Rightarrow> Py (JStr rest))"

definition country_table :: "lib \<Rightarrow> json \<Rightarrow> pyerr + frame" where
  "country_table L class_objs =
     and_then (py_iter class_objs) (\<lambda>objs.
       and_then (find_class (ascii ''area'') objs) (\<lambda>found.
         case found of
           None \<Rightarrow> Inr (empty_frame [kuni_code, kuni_mei])
         | Some obj \<Rightarrow>
             if \<not> truthy obj then Inr (empty_frame [kuni_code, kuni_mei])
             else and_then (contains (ascii ''CLASS'') obj) (\<lambda>b.
               if \<not> b then Inr (empty_frame [kuni_code, kuni_mei])
               else and_then (getitem obj (ascii ''CLASS'')) (\<lambda>cls.
                 and_then (DataFrame L cls) (\<lambda>t.
                   and_then
                     (select [kuni_code, kuni_mei]
                        (rename_cols [(ascii ''@code'', kuni_code), (ascii ''@name'', kuni_mei)] t))
                     (\<lambda>shrink.
                        Inr (set_column kuni_mei
                               (\<lambda>r. country_name L (cell_at r kuni_mei)) shrink)))))))"

text \<open>
  Lines 224 and 225: the year, from the first four characters of the year code.
  Line 228: the HS code as a str.
\<close>

definition year_cell :: "lib \<Rightarrow> row \<Rightarrow> pyerr + cell" where
  "year_cell L r = year_of L (take 4 (astype_str L (cell_at r nen_code)))"

definition add_year :: "lib \<Rightarrow> frame \<Rightarrow> pyerr + frame" where
  "add_year L df =
     (if nen_code \<notin> set (columns df) then Inl KeyError
      else (case first_error (year_cell L) (rws df) of
              Some e \<Rightarrow> Inl e
            | None \<Rightarrow> Inr (set_column nen (\<lambda>r. value_of (year_cell L r)) df)))"

definition str_column :: "lib \<Rightarrow> pystr \<Rightarrow> frame \<Rightarrow> frame" where
  "str_column L c df = set_column c (\<lambda>r. Py (JStr (astype_str L (cell_at r c)))) df"

definition hs_as_str :: "lib \<Rightarrow> frame \<Rightarrow> pyerr + frame" where
  "hs_as_str L df =
     (if HS_code \<notin> set (columns df) then Inl KeyError
      else Inr (str_column L HS_code df))"

text \<open>
  Line 230:
  \<open>df_hscode[[HS code, item]].astype(str).drop_duplicates(subset=[HS code])\<close>.
\<close>

definition label_table :: "lib \<Rightarrow> frame \<Rightarrow> pyerr + frame" where
  "label_table L df_hscode =
     and_then (select [HS_code, hinmoku] df_hscode) (\<lambda>t.
       Inr (drop_duplicates HS_code (str_column L hinmoku (str_column L HS_code t))))"

text \<open>Lines 221 to 231, the joins.\<close>

definition merge_chain ::
    "lib \<Rightarrow> frame \<Rightarrow> frame \<Rightarrow> frame \<Rightarrow> frame \<Rightarrow> frame \<Rightarrow> pyerr + frame" where
  "merge_chain L df df_cat02_shrink df_zeikan_shrink df_country_shrink df_hscode =
     and_then (merge_left L kubun_code df df_cat02_shrink) (\<lambda>df_merged_1.
       and_then (merge_left L zeikan_code df_merged_1 df_zeikan_shrink) (\<lambda>df_merged_2.
         and_then (merge_left L kuni_code df_merged_2 df_country_shrink) (\<lambda>df_merged_3.
           and_then (add_year L df_merged_3) (\<lambda>with_year.
             and_then (hs_as_str L with_year) (\<lambda>with_hs.
               and_then (label_table L df_hscode) (\<lambda>df_hscode_merge.
                 merge_left L HS_code with_hs df_hscode_merge))))))"

text \<open>Lines 183 to 233, the body of the \<open>try\<close>.\<close>

definition merge_try :: "lib \<Rightarrow> frame \<Rightarrow> json \<Rightarrow> frame \<Rightarrow> pyerr + frame" where
  "merge_try L df res df_hscode =
     and_then (get_class_objs res) (\<lambda>class_objs.
       and_then (class_table L class_objs (ascii ''cat02'')
                   [(ascii ''@code'', kubun_code), (ascii ''@name'', kubun_mei),
                    (ascii ''@parentCode'', oya_code)]
                   [kubun_code, kubun_mei, oya_code]) (\<lambda>df_cat02_shrink.
         and_then (class_table L class_objs (ascii ''cat03'')
                     [(ascii ''@code'', zeikan_code), (ascii ''@name'', zeikan)]
                     [zeikan_code, zeikan]) (\<lambda>df_zeikan_shrink.
           and_then (country_table L class_objs) (\<lambda>df_country_shrink.
             merge_chain L df df_cat02_shrink df_zeikan_shrink df_country_shrink
               df_hscode))))"

text \<open>
  Lines 175 to 237: \<open>df_complete\<close> is \<open>df\<close> when there is no retained response or it has
  no \<open>CLASS_INF\<close>, and when the \<open>try\<close> raises; the test of line 179 is outside the
  \<open>try\<close>.
\<close>

definition resolver :: "lib \<Rightarrow> frame \<Rightarrow> json option \<Rightarrow> frame \<Rightarrow> pyerr + frame" where
  "resolver L df res_opt df_hscode =
     (case res_opt of
        None \<Rightarrow> Inr df
      | Some res \<Rightarrow>
          (case no_class_inf res of
             Inl e \<Rightarrow> Inl e
           | Inr absent \<Rightarrow>
               if absent then Inr df
               else (case merge_try L df res df_hscode of
                       Inl e \<Rightarrow> Inr df
                     | Inr df_merged_4 \<Rightarrow> Inr df_merged_4)))"


section \<open>Shaping (app.py, lines 241 to 307)\<close>

text \<open>Line 252, the excluded category names, and the test of line 253 on one entry.\<close>

definition exclude_values :: "pystr list" where
  "exclude_values =
     [[0x5358, 0x4F4D, 0x32],
      [0x5408, 0x8A08, 0x5F, 0x91D1, 0x984D],
      [0x5408, 0x8A08, 0x5F, 0x6570, 0x91CF, 0x31],
      [0x5408, 0x8A08, 0x5F, 0x6570, 0x91CF, 0x32]]"

definition excluded :: "cell \<Rightarrow> bool" where
  "excluded c = (c \<in> set (map (\<lambda>v. Py (JStr v)) exclude_values))"

definition drop_excluded :: "frame \<Rightarrow> frame" where
  "drop_excluded df = df\<lparr>rws := filter (\<lambda>r. \<not> excluded (cell_at r kubun_mei)) (rws df)\<rparr>"

text \<open>
  Lines 255 to 257: the category name as a str, split at its first underscore; the month
  is the first part and the category the second, which is missing without an underscore.
\<close>

definition month_part :: "lib \<Rightarrow> row \<Rightarrow> cell" where
  "month_part L r = Py (JStr (fst (split_first (astype_str L (cell_at r kubun_mei)))))"

definition category_part :: "lib \<Rightarrow> row \<Rightarrow> cell" where
  "category_part L r =
     (case snd (split_first (astype_str L (cell_at r kubun_mei))) of
        None \<Rightarrow> NaN
      | Some rest \<Rightarrow> Py (JStr rest))"

definition split_kubun :: "lib \<Rightarrow> frame \<Rightarrow> frame" where
  "split_kubun L df = set_column kubun (category_part L) (set_column tsuki (month_part L) df)"

text \<open>
  Line 260, \<open>.str.extract(r'(\d+)').astype('Int64')\<close> on one entry: the first run of
  digits as an integer, missing when there is none; a number beyond the 64 bits of the
  type raises.
\<close>

definition extract_digits :: "lib \<Rightarrow> pystr \<Rightarrow> pystr option" where
  "extract_digits L s =
     (case dropWhile (\<lambda>c. digit L c = None) s of
        [] \<Rightarrow> None
      | d # rest \<Rightarrow> Some (takeWhile (\<lambda>c. digit L c \<noteq> None) (d # rest)))"

definition digit_value :: "lib \<Rightarrow> nat \<Rightarrow> int" where
  "digit_value L c = (case digit L c of None \<Rightarrow> 0 | Some v \<Rightarrow> int v)"

definition int_of_digits :: "lib \<Rightarrow> pystr \<Rightarrow> int" where
  "int_of_digits L ds = foldl (\<lambda>n c. 10 * n + digit_value L c) 0 ds"

definition month_number :: "lib \<Rightarrow> cell \<Rightarrow> pyerr + cell" where
  "month_number L c =
     (case c of
        Py (JStr s) \<Rightarrow>
          (case extract_digits L s of
             None \<Rightarrow> Inr NaN
           | Some ds \<Rightarrow>
               if int_of_digits L ds > 9223372036854775807 then Inl OverflowError
               else Inr (Py (JInt (int_of_digits L ds))))
      | _ \<Rightarrow> Inr NaN)"

text \<open>Lines 264 to 267: the text of the date of one row, and the column of the dates.\<close>

definition date_text :: "lib \<Rightarrow> row \<Rightarrow> pystr" where
  "date_text L r =
     astype_str L (cell_at r nen) @ ascii ''-'' @ astype_str L (cell_at r tsuki_suuchi)
       @ ascii ''-01''"

definition add_dates :: "lib \<Rightarrow> frame \<Rightarrow> frame" where
  "add_dates L df =
     set_column nengetsu (\<lambda>r. to_datetime L (map (date_text L) (rws df)) (date_text L r)) df"

text \<open>
  Lines 260 to 273, once the month numbers are there: the column of the month numbers, the
  rows with a year and a month number, the dates, the rows with a date; then the columns
  of the month number and of the category name are dropped.
\<close>

definition dated :: "lib \<Rightarrow> frame \<Rightarrow> frame" where
  "dated L d3 =
     (let d4 = set_column tsuki_suuchi (\<lambda>r. value_of (month_number L (cell_at r tsuki))) d3;
          d8 = (if nen \<in> set (columns d4) \<and> tsuki_suuchi \<in> set (columns d4)
                then drop_cols [tsuki_suuchi]
                       (dropna [nengetsu] (add_dates L (dropna [nen, tsuki_suuchi] d4)))
                else d4)
      in drop_cols [kubun_mei] d8)"

text \<open>
  Lines 251 to 273, the branch for a table with the category name.  The result is the
  table at the end, or the exception and the value of \<open>df_complete\<close> when it is raised.
\<close>

definition filter_kubun :: "lib \<Rightarrow> frame \<Rightarrow> (pyerr \<times> frame) + frame" where
  "filter_kubun L df =
     (let d1 = dropna [kubun_mei] df in
      case isin_error L (column d1 kubun_mei) of
        Some e \<Rightarrow> Inl (e, d1)
      | None \<Rightarrow>
          (let d3 = split_kubun L (drop_excluded d1) in
           case first_error (month_number L) (column d3 tsuki) of
             Some e \<Rightarrow> Inl (e, d3)
           | None \<Rightarrow> Inr (dated L d3)))"

text \<open>
  Lines 279 to 290: a conversion of the entries of a column that the table has; an entry
  that raises leaves \<open>df_complete\<close> as it is.
\<close>

definition convert_column ::
    "pystr \<Rightarrow> (cell list \<Rightarrow> cell \<Rightarrow> pyerr + cell) \<Rightarrow> frame \<Rightarrow> (pyerr \<times> frame) + frame" where
  "convert_column c f df =
     (if c \<notin> set (columns df) then Inr df
      else (case first_error (f (column df c)) (column df c) of
              Some e \<Rightarrow> Inl (e, df)
            | None \<Rightarrow> Inr (set_column c (\<lambda>r. value_of (f (column df c) (cell_at r c))) df)))"

definition as_str :: "lib \<Rightarrow> cell list \<Rightarrow> cell \<Rightarrow> pyerr + cell" where
  "as_str L col c = Inr (Py (JStr (astype_str L c)))"

definition optimise_types :: "lib \<Rightarrow> frame \<Rightarrow> (pyerr \<times> frame) + frame" where
  "optimise_types L df =
     and_then (convert_column atai (to_numeric L) df) (\<lambda>d1.
       and_then (convert_column HS_code (as_str L) d1) (\<lambda>d2.
         and_then (convert_column kuni_code (as_str L) d2) (\<lambda>d3.
           and_then (convert_column zeikan_code (as_str L) d3) (\<lambda>d4.
             convert_column nengetsu (to_datetime_strict L) d4))))"

text \<open>Lines 294 to 300: the columns of the final order that the table has.\<close>

definition final_cols_order :: "pystr list" where
  "final_cols_order =
     [HS_code, hinmoku, nen, tsuki, nengetsu, kubun, kuni_code, kuni_mei, zeikan_code,
      zeikan, atai, tani]"

definition select_existing :: "pystr list \<Rightarrow> frame \<Rightarrow> frame" where
  "select_existing order df =
     \<lparr>columns = filter (\<lambda>c. c \<in> set (columns df)) order,
      rws = map (restrict_row (filter (\<lambda>c. c \<in> set (columns df)) order)) (rws df)\<rparr>"

text \<open>Lines 275 to 300, after the branch of the category name.\<close>

definition finish :: "lib \<Rightarrow> frame \<Rightarrow> (pyerr \<times> frame) + frame" where
  "finish L d1 =
     and_then (optimise_types L (drop_cols [nen_code] d1)) (\<lambda>d2.
       Inr (select_existing final_cols_order d2))"

text \<open>Lines 241 to 300, the body of the \<open>try\<close>.\<close>

definition shaper :: "lib \<Rightarrow> frame \<Rightarrow> (pyerr \<times> frame) + frame" where
  "shaper L df =
     and_then (if kubun_mei \<in> set (columns df) then filter_kubun L df else Inr df) (finish L)"

text \<open>
  Lines 241 to 307: after the handler the run goes on with \<open>df_complete\<close> as it is at that
  moment.
\<close>

definition shaping :: "lib \<Rightarrow> frame \<Rightarrow> frame" where
  "shaping L df = (case shaper L df of Inl (e, d) \<Rightarrow> d | Inr d \<Rightarrow> d)"


section \<open>After the loop (app.py, lines 161 to 313)\<close>

text \<open>
  The table that the run displays, or the way it ends without one.  Lines 163 to 172 and
  the test of line 179 are outside every \<open>try\<close>.  The export to CSV that follows (lines 315
  to 351) has handlers of its own and no \<open>st.stop()\<close>.
\<close>

definition after_loop :: "lib \<Rightarrow> loop_state \<Rightarrow> frame \<Rightarrow> halt + frame" where
  "after_loop L s df_hscode =
     (if data_list s = [] then Inl NoData
      else (case DataFrame L (JArr (data_list s)) of
              Inl e \<Rightarrow> Inl (Uncaught e)
            | Inr df0 \<Rightarrow>
                (case resolver L (rename_cols value_columns df0) (result s) df_hscode of
                   Inl e \<Rightarrow> Inl (Uncaught e)
                 | Inr df_complete \<Rightarrow> Inr (shaping L df_complete))))"

text \<open>The run, from the table of the HS codes and what the API yields for each code.\<close>

definition run :: "lib \<Rightarrow> frame \<Rightarrow> (pystr \<Rightarrow> reply) \<Rightarrow> halt + frame" where
  "run L df_hscode api =
     (case read_codes df_hscode of
        Inl h \<Rightarrow> Inl h
      | Inr hs_codes \<Rightarrow>
          after_loop L (fetch_loop init_state (map (\<lambda>code. (code, api code)) hs_codes))
            df_hscode)"


section \<open>Samples for the evaluations\<close>

text \<open>
  A stand-in for the library on ASCII digits: decimal \<open>str\<close> of an integer, numbers and
  dates read from digits, no refusal.
\<close>

definition ascii_digit :: "nat \<Rightarrow> nat option" where
  "ascii_digit c = (if 0x30 \<le> c \<and> c \<le> 0x39 then Some (c - 0x30) else None)"

fun nat_of_text :: "nat \<Rightarrow> pystr \<Rightarrow> nat option" where
  "nat_of_text n [] = Some n"
| "nat_of_text n (c # cs) =
     (case ascii_digit c of None \<Rightarrow> None | Some v \<Rightarrow> nat_of_text (10 * n + v) cs)"

definition number_cell :: "pystr \<Rightarrow> cell" where
  "number_cell s =
     (if s = [] then NaN
      else (case nat_of_text 0 s of None \<Rightarrow> NaN | Some n \<Rightarrow> Py (JInt (int n))))"

fun text_of_digits :: "nat list \<Rightarrow> pystr" where
  "text_of_digits ds = map (\<lambda>d. 0x30 + d) ds"

fun digits_of :: "nat \<Rightarrow> nat \<Rightarrow> nat list \<Rightarrow> nat list" where
  "digits_of 0 n acc = acc"
| "digits_of (Suc fuel) n acc =
     (if n < 10 then n # acc else digits_of fuel (n div 10) (n mod 10 # acc))"

definition sample_repr :: "cell \<Rightarrow> pystr" where
  "sample_repr c =
     (case c of
        NaN \<Rightarrow> ascii ''nan''
      | Py (JInt n) \<Rightarrow> text_of_digits (digits_of 20 (nat n) [])
      | Py JNull \<Rightarrow> ascii ''None''
      | _ \<Rightarrow> ascii ''?'')"

definition sample_date :: "pystr \<Rightarrow> cell" where
  "sample_date s =
     (let y = takeWhile (\<lambda>c. c \<noteq> 0x2D) s;
          m = takeWhile (\<lambda>c. c \<noteq> 0x2D) (drop (length y + 1) s)
      in case (nat_of_text 0 y, nat_of_text 0 m) of
           (Some yy, Some mm) \<Rightarrow>
             if y \<noteq> [] \<and> 1 \<le> mm \<and> mm \<le> 12 then Timestamp (int yy) mm 1 else NaN
         | _ \<Rightarrow> NaN)"

definition sample_numeric :: "cell \<Rightarrow> cell" where
  "sample_numeric c =
     (case c of Py (JStr s) \<Rightarrow> number_cell s | Py (JInt n) \<Rightarrow> c | _ \<Rightarrow> NaN)"

definition sample_lib :: lib where
  "sample_lib =
     \<lparr>repr = sample_repr,
      other_frame = (\<lambda>x. Inl ValueError),
      digit = ascii_digit,
      year_of = (\<lambda>s. Inr (number_cell s)),
      to_datetime = (\<lambda>col s. sample_date s),
      to_numeric = (\<lambda>col c. Inr (sample_numeric c)),
      to_datetime_strict = (\<lambda>col c. Inr c),
      merge_error = (\<lambda>l r. None),
      isin_error = (\<lambda>col. None)\<rparr>"

text \<open>Sample tables and responses.\<close>

definition scell :: "string \<Rightarrow> cell" where
  "scell s = Py (JStr (ascii s))"

definition jtxt :: "string \<Rightarrow> json" where
  "jtxt s = JStr (ascii s)"

definition codes_frame :: "pystr list \<Rightarrow> frame" where
  "codes_frame cs = \<lparr>columns = [HS_code], rws = map (\<lambda>s. [(HS_code, Py (JStr s))]) cs\<rparr>"

definition value_row :: json where
  "value_row =
     JObj [(ascii ''@cat01'', jtxt ''0101''), (ascii ''@cat02'', jtxt ''110''),
           (ascii ''@cat03'', jtxt ''100''), (ascii ''@area'', jtxt ''105''),
           (ascii ''@time'', jtxt ''2023000000''), (ascii ''$'', jtxt ''12345''),
           (ascii ''@unit'', jtxt ''KG'')]"

definition class_obj :: "string \<Rightarrow> json list \<Rightarrow> json" where
  "class_obj ident classes = JObj [(ascii ''@id'', jtxt ident), (ascii ''CLASS'', JArr classes)]"

definition class_entry :: "string \<Rightarrow> string \<Rightarrow> json" where
  "class_entry code name = JObj [(ascii ''@code'', jtxt code), (ascii ''@name'', jtxt name)]"

definition labelled_codes :: frame where
  "labelled_codes =
     \<lparr>columns = [HS_code, hinmoku],
      rws = [[(HS_code, scell ''0101''), (hinmoku, scell ''Horses'')]]\<rparr>"

definition values_table :: frame where
  "values_table =
     \<lparr>columns = [HS_code, kubun_code, zeikan_code, kuni_code, nen_code, atai, tani],
      rws = [[(HS_code, scell ''0101''), (kubun_code, scell ''110''), (zeikan_code, scell ''100''),
              (kuni_code, scell ''105''), (nen_code, scell ''2023000000''), (atai, scell ''12345''),
              (tani, scell ''KG'')]]\<rparr>"

definition cat02_table :: frame where
  "cat02_table =
     \<lparr>columns = [kubun_code, kubun_mei, oya_code],
      rws = [[(kubun_code, scell ''100''),
              (kubun_mei, Py (JStr [0x5408, 0x8A08, 0x5F, 0x91D1, 0x984D])),
              (oya_code, scell ''000'')],
             [(kubun_code, scell ''110''), (kubun_mei, scell ''99999999999999999999_x''),
              (oya_code, scell ''000'')]]\<rparr>"

definition zeikan_table :: frame where
  "zeikan_table =
     \<lparr>columns = [zeikan_code, zeikan],
      rws = [[(zeikan_code, scell ''100''), (zeikan, scell ''Tokyo'')]]\<rparr>"

definition kuni_table :: frame where
  "kuni_table =
     \<lparr>columns = [kuni_code, kuni_mei],
      rws = [[(kuni_code, scell ''105''), (kuni_mei, scell ''Korea'')]]\<rparr>"

text \<open>
  A response with two value rows and two categories: the name of the first is an excluded
  one, and the name of the second has a month number that does not fit 64 bits.
\<close>

definition value_row_of :: "string \<Rightarrow> json" where
  "value_row_of cat02 =
     JObj [(ascii ''@cat01'', jtxt ''0101''), (ascii ''@cat02'', jtxt cat02),
           (ascii ''@cat03'', jtxt ''100''), (ascii ''@area'', jtxt ''105''),
           (ascii ''@time'', jtxt ''2023000000''), (ascii ''$'', jtxt ''12345''),
           (ascii ''@unit'', jtxt ''KG'')]"

definition overflow_classes :: json where
  "overflow_classes =
     JArr [class_obj ''cat02''
             [JObj [(ascii ''@code'', jtxt ''100''),
                    (ascii ''@name'', JStr [0x5408, 0x8A08, 0x5F, 0x91D1, 0x984D]),
                    (ascii ''@parentCode'', jtxt ''000'')],
              JObj [(ascii ''@code'', jtxt ''110''),
                    (ascii ''@name'', jtxt ''99999999999999999999_x''),
                    (ascii ''@parentCode'', jtxt ''000'')]],
           class_obj ''cat03'' [class_entry ''100'' ''Tokyo''],
           class_obj ''area'' [class_entry ''105'' ''105_Korea'']]"

definition overflow_response :: json where
  "overflow_response =
     envelope (JInt 0)
       [(ascii ''STATISTICAL_DATA'',
         JObj [(ascii ''CLASS_INF'', JObj [(ascii ''CLASS_OBJ'', overflow_classes)]),
               (ascii ''DATA_INF'',
                JObj [(ascii ''VALUE'', JArr [value_row_of ''100'', value_row_of ''110''])])])]"

text \<open>The state after the loop on that response, and the table of its value rows.\<close>

definition two_rows_state :: loop_state where
  "two_rows_state =
     \<lparr>data_list = [value_row_of ''100'', value_row_of ''110''],
      result = Some overflow_response,
      processed_count = 1, error_count = 0, skipped_count = 0\<rparr>"

definition plain_row :: "string \<Rightarrow> row" where
  "plain_row cat02 =
     [(HS_code, scell ''0101''), (kubun_code, scell cat02), (zeikan_code, scell ''100''),
      (kuni_code, scell ''105''), (nen_code, scell ''2023000000''), (atai, scell ''12345''),
      (tani, scell ''KG'')]"

definition two_rows :: frame where
  "two_rows =
     \<lparr>columns = [HS_code, kubun_code, zeikan_code, kuni_code, nen_code, atai, tani],
      rws = [plain_row ''100'', plain_row ''110'']\<rparr>"

text \<open>The table after the joins, which enters the shaping, and the table that is shown.\<close>

definition merged_row :: "string \<Rightarrow> cell \<Rightarrow> row" where
  "merged_row cat02 name =
     plain_row cat02 @
     [(kubun_mei, name), (oya_code, scell ''000''), (zeikan, scell ''Tokyo''),
      (kuni_mei, scell ''Korea''), (nen, Py (JInt 2023)), (hinmoku, scell ''Horses'')]"

definition merged_columns :: "pystr list" where
  "merged_columns =
     [HS_code, kubun_code, zeikan_code, kuni_code, nen_code, atai, tani, kubun_mei, oya_code,
      zeikan, kuni_mei, nen, hinmoku]"

definition overflow_table :: frame where
  "overflow_table =
     \<lparr>columns = merged_columns,
      rws = [merged_row ''100'' (Py (JStr [0x5408, 0x8A08, 0x5F, 0x91D1, 0x984D])),
             merged_row ''110'' (scell ''99999999999999999999_x'')]\<rparr>"

definition overflow_rest :: frame where
  "overflow_rest =
     \<lparr>columns = merged_columns @ [tsuki, kubun],
      rws = [merged_row ''110'' (scell ''99999999999999999999_x'') @
             [(tsuki, scell ''99999999999999999999''), (kubun, scell ''x'')]]\<rparr>"

text \<open>The table shown for the one row of \<open>value_row\<close> when no metadata is joined.\<close>

definition plain_output :: frame where
  "plain_output =
     \<lparr>columns = [HS_code, kuni_code, zeikan_code, atai, tani],
      rws = [[(HS_code, scell ''0101''), (kuni_code, scell ''105''),
              (zeikan_code, scell ''100''), (atai, Py (JInt 12345)),
              (tani, scell ''KG'')]]\<rparr>"

definition one_row_state :: loop_state where
  "one_row_state =
     \<lparr>data_list = [value_row], result = Some (with_value (JArr [value_row])),
      processed_count = 1, error_count = 0, skipped_count = 0\<rparr>"


section \<open>Properties of the fetch loop\<close>

lemma append_rows_eq: "append_rows dl rows = dl @ rows"
  by (induction rows arbitrary: dl) simp_all

lemma handler_eq: "handler e s = bump Errored s"
  by (cases e) simp_all

lemma counter_of_error: "counter_of (error_outcome e) = Errored"
  by (cases e) simp_all



text \<open>
  The loop body follows the branch: a raise leaves the body with the state of the start of
  the round, a normal end is the branch's update.
\<close>

lemma try_body_outcome:
  "try_body j s =
     (case body_outcome j of Inl e \<Rightarrow> Inl (e, s) | Inr oc \<Rightarrow> Inr (settle j s oc))"
  unfolding try_body_def body_outcome_def
  by (simp add: append_rows_eq settle_def split: sum.split)


lemma iteration_Returns:
  "iteration s (c, Returns j) =
     (case body_outcome j of Inl e \<Rightarrow> bump Errored s | Inr oc \<Rightarrow> settle j s oc)"
  by (simp add: iteration_def try_body_outcome handler_eq split: sum.split)







lemma getitem_contains: "getitem j k = Inr v \<Longrightarrow> contains k j = Inr True"
  by (cases j) (simp_all split: option.splits)

text \<open>Evaluation of the sample responses.\<close>

lemma outcome_sample_rows: "body_outcome (with_value (JArr rows)) = Inr (Success rows)"
  by (simp add: body_outcome_def with_value_def envelope_def no_status_def get_status_def
      has_value_def get_value_def ascii_def)

lemma outcome_sample_null: "body_outcome (with_value JNull) = Inl TypeError"
  by (simp add: body_outcome_def with_value_def envelope_def no_status_def get_status_def
      has_value_def get_value_def ascii_def)



lemma outcome_sample_malformed: "body_outcome (JObj []) = Inr MalformedResponse"
  by (simp add: body_outcome_def)





text \<open>
  C2, as the specification states it (a success status gives the success branch exactly
  when value rows are present, and the empty-result branch when none are), fails: a
  response with status 0 whose VALUE entry is the empty list has no value rows, yet the
  round keeps the envelope and adds to \<open>processed_count\<close>; and one whose VALUE entry is
  \<open>null\<close> adds to \<open>error_count\<close>, which is neither branch.
\<close>

theorem success_without_rows_counterexample:
  "iteration init_state (ascii ''0101'', Returns (with_value (JArr []))) =
     init_state\<lparr>result := Some (with_value (JArr [])), processed_count := 1\<rparr>
   \<and> iteration init_state (ascii ''0101'', Returns (with_value JNull)) =
     init_state\<lparr>error_count := 1\<rparr>"
  by (simp add: iteration_Returns outcome_sample_rows outcome_sample_null settle_def
      init_state_def)

text \<open>
  C2, amended.  When the status of the envelope equals 0, the test of line 124 decides:
  if it finds the VALUE entry and the entry can be iterated (a list, a dict or a str), the
  round appends the entry's elements (none for an empty list), keeps the envelope and adds
  to \<open>processed_count\<close>; if it finds a key missing, the round adds to \<open>skipped_count\<close>
  and changes nothing else; if the test or the iteration raises, the round adds to
  \<open>error_count\<close> and changes nothing else.
\<close>

theorem success_status_branches:
  assumes "getitem result_json (ascii ''GET_STATS_DATA'') = Inr api_result"
    and "no_status api_result = Inr False"
    and "get_status api_result = Inr status"
    and "eq_zero status"
  shows "iteration s (c, Returns result_json) =
     (case has_value api_result of
        Inl e \<Rightarrow> s\<lparr>error_count := error_count s + 1\<rparr>
      | Inr False \<Rightarrow> s\<lparr>skipped_count := skipped_count s + 1\<rparr>
      | Inr True \<Rightarrow>
          (case get_value api_result of
             Inl e \<Rightarrow> s\<lparr>error_count := error_count s + 1\<rparr>
           | Inr response_value \<Rightarrow>
               (case py_iter response_value of
                  Inl e \<Rightarrow> s\<lparr>error_count := error_count s + 1\<rparr>
                | Inr rows \<Rightarrow>
                    s\<lparr>data_list := data_list s @ rows, result := Some result_json,
                      processed_count := processed_count s + 1\<rparr>)))"
proof -
  from assms(1) have "contains (ascii ''GET_STATS_DATA'') result_json = Inr True"
    by (rule getitem_contains)
  with assms have "body_outcome result_json =
     (case has_value api_result of
        Inl e \<Rightarrow> Inl e
      | Inr hv \<Rightarrow>
          if \<not> hv then Inr EmptyResult
          else (case get_value api_result of
                  Inl e \<Rightarrow> Inl e
                | Inr response_value \<Rightarrow>
                    (case py_iter response_value of
                       Inl e \<Rightarrow> Inl e
                     | Inr rows \<Rightarrow> Inr (Success rows))))"
    by (simp add: body_outcome_def)
  then show ?thesis
    by (simp add: iteration_Returns settle_def split: sum.split bool.split)
qed

theorem success_status_branches_witness:
  "iteration init_state (ascii ''0101'', Returns (with_value (JArr [row1]))) =
     init_state\<lparr>data_list := [row1], result := Some (with_value (JArr [row1])),
       processed_count := 1\<rparr>"
  using success_status_branches
    [of "with_value (JArr [row1])"
        "JObj [(ascii ''RESULT'', JObj [(ascii ''STATUS'', JInt 0)]),
               (ascii ''STATISTICAL_DATA'',
                JObj [(ascii ''DATA_INF'', JObj [(ascii ''VALUE'', JArr [row1])])])]"
        "JInt 0" init_state "ascii ''0101''"]
  by (simp add: with_value_def envelope_def no_status_def get_status_def has_value_def
      get_value_def init_state_def ascii_def)





section \<open>Properties of the tables\<close>

lemma and_then_Inr:
  "and_then x f = Inr y \<longleftrightarrow> (\<exists>v. x = Inr v \<and> f v = Inr y)"
  by (cases x) (simp_all add: and_then_def)

lemma and_then_simps [simp]:
  "and_then (Inl e) f = Inl e"
  "and_then (Inr v) f = f v"
  by (simp_all add: and_then_def)

lemma length_set_column [simp]: "length (rws (set_column c f df)) = length (rws df)"
  by (simp add: set_column_def)

lemma length_drop_cols [simp]: "length (rws (drop_cols cs df)) = length (rws df)"
  by (simp add: drop_cols_def)













lemmas label_defs =
  HS_code_def hinmoku_def nen_def kubun_mei_def kuni_code_def kuni_mei_def zeikan_code_def
  zeikan_def atai_def tani_def kubun_code_def nen_code_def oya_code_def tsuki_def kubun_def
  tsuki_suuchi_def nengetsu_def

lemma cell_at_update: "cell_at (AList.update k v r) c = (if c = k then v else cell_at r c)"
  by (simp add: cell_at_def update_conv')

lemma columns_set_column_member:
  "c \<in> set (columns df) \<Longrightarrow> columns (set_column c f df) = columns df"
  by (simp add: set_column_def)

lemma set_columns_set_column: "set (columns (set_column c f df)) = insert c (set (columns df))"
  by (auto simp: set_column_def)

lemma dropna_columns [simp]: "columns (dropna cs df) = columns df"
  by (simp add: dropna_def)

lemma drop_excluded_columns [simp]: "columns (drop_excluded df) = columns df"
  by (simp add: drop_excluded_def)

lemma first_error_None_sublist:
  "first_error f xs = None \<Longrightarrow> first_error f (filter P xs) = None"
  by (induction xs) (auto split: sum.splits)

text \<open>A conversion keeps the rows and the columns, whether it raises or not.\<close>

lemma convert_column_Inr:
  "convert_column c f df = Inr d \<Longrightarrow>
     length (rws d) = length (rws df) \<and> columns d = columns df"
  by (auto simp: convert_column_def columns_set_column_member split: if_splits option.splits)

lemma convert_column_Inl:
  "convert_column c f df = Inl (e, d) \<Longrightarrow> d = df"
  by (auto simp: convert_column_def split: if_splits option.splits)

lemma and_then_Inl:
  "and_then x f = Inl e \<longleftrightarrow> x = Inl e \<or> (\<exists>v. x = Inr v \<and> f v = Inl e)"
  by (cases x) simp_all

lemma optimise_types_shape:
  "optimise_types L df = Inr d \<or> optimise_types L df = Inl (e, d) \<Longrightarrow>
     length (rws d) = length (rws df) \<and> columns d = columns df"
  unfolding optimise_types_def and_then_Inr and_then_Inl
  by (elim disjE exE conjE;
      (drule convert_column_Inr convert_column_Inl)+; simp)

lemma select_existing_shape:
  "length (rws (select_existing order df)) = length (rws df)"
  "set (columns (select_existing order df)) = set order \<inter> set (columns df)"
  by (auto simp: select_existing_def)

lemma kubun_mei_not_final: "kubun_mei \<notin> set final_cols_order"
  by (simp add: final_cols_order_def label_defs)

lemma drop_cols_columns: "set (columns (drop_cols cs df)) = set (columns df) - set cs"
  by (auto simp: drop_cols_def)

lemma finish_shape:
  assumes "finish L d1 = Inr d \<or> finish L d1 = Inl (e, d)"
  shows "length (rws d) = length (rws d1) \<and> set (columns d) \<subseteq> set (columns d1)"
proof -
  from assms consider
    (ok) d2 where "optimise_types L (drop_cols [nen_code] d1) = Inr d2"
      "d = select_existing final_cols_order d2"
    | (raised) "optimise_types L (drop_cols [nen_code] d1) = Inl (e, d)"
    unfolding finish_def and_then_Inr and_then_Inl by auto
  then show ?thesis
  proof cases
    case ok
    from optimise_types_shape[of L "drop_cols [nen_code] d1" d2] ok(1)
    have "length (rws d2) = length (rws d1)" "columns d2 = columns (drop_cols [nen_code] d1)"
      by simp_all
    with ok(2) show ?thesis
      by (auto simp: select_existing_shape drop_cols_columns)
  next
    case raised
    from optimise_types_shape[of L "drop_cols [nen_code] d1" d e] raised
    have "length (rws d) = length (rws d1)" "columns d = columns (drop_cols [nen_code] d1)"
      by simp_all
    then show ?thesis
      by (auto simp: drop_cols_columns)
  qed
qed

lemmas shaper_finish = shaper_def

lemma shaping_without_kubun_mei:
  assumes "kubun_mei \<notin> set (columns df)"
  shows "length (rws (shaping L df)) = length (rws df)
         \<and> set (columns (shaping L df)) \<subseteq> set (columns df)"
proof (cases "finish L df")
  case (Inl ed)
  obtain e d where ed: "ed = (e, d)" by (cases ed)
  from finish_shape[of L df d e] Inl ed
  have "length (rws d) = length (rws df) \<and> set (columns d) \<subseteq> set (columns df)" by simp
  with assms Inl ed show ?thesis
    by (simp add: shaping_def shaper_finish)
next
  case (Inr d)
  from finish_shape[of L df d] Inr
  have "length (rws d) = length (rws df) \<and> set (columns d) \<subseteq> set (columns df)" by simp
  with assms Inr show ?thesis
    by (simp add: shaping_def shaper_finish)
qed

lemma filter_kubun_Inr_columns:
  "filter_kubun L df = Inr d \<Longrightarrow> kubun_mei \<notin> set (columns d)"
  by (auto simp: filter_kubun_def dated_def Let_def drop_cols_columns split: option.splits)

text \<open>
  Where the category name is still a column after the shaping, the branch of the category
  name has raised.
\<close>

lemma shaping_cases:
  "kubun_mei \<notin> set (columns (shaping L df))
   \<or> (kubun_mei \<in> set (columns df) \<and> (\<exists>e. filter_kubun L df = Inl (e, shaping L df)))"
proof (cases "kubun_mei \<in> set (columns df)")
  case False
  with shaping_without_kubun_mei[OF False, of L] show ?thesis by auto
next
  case True
  show ?thesis
  proof (cases "filter_kubun L df")
    case (Inl ed)
    obtain e d where ed: "ed = (e, d)" by (cases ed)
    with True Inl show ?thesis
      by (simp add: shaping_def shaper_finish)
  next
    case (Inr d1)
    have k: "kubun_mei \<notin> set (columns d1)"
      using filter_kubun_Inr_columns[OF Inr] .
    have s: "shaper L df = finish L d1"
      using True Inr by (simp add: shaper_finish)
    show ?thesis
    proof (cases "finish L d1")
      case (Inl ed)
      obtain e d where ed: "ed = (e, d)" by (cases ed)
      from finish_shape[of L d1 d e] Inl ed have "set (columns d) \<subseteq> set (columns d1)" by simp
      with k s Inl ed show ?thesis by (auto simp: shaping_def)
    next
      case (Inr d)
      from finish_shape[of L d1 d] Inr have "set (columns d) \<subseteq> set (columns d1)" by simp
      with k s Inr show ?thesis by (auto simp: shaping_def)
    qed
  qed
qed

lemma filter_all: "\<forall>x\<in>set xs. P x \<Longrightarrow> filter P xs = xs"
  by (induction xs) simp_all

lemma dropna_idem: "dropna cs (dropna cs df) = dropna cs df"
  by (simp add: dropna_def)

lemma column_dropna_idem: "column (dropna cs (dropna cs df)) c = column (dropna cs df) c"
  by (simp add: dropna_idem)

text \<open>The split reads the category name only, and does not change it.\<close>

lemma split_kubun_rws:
  "rws (split_kubun L df) =
     map (\<lambda>r. AList.update kubun (category_part L (AList.update tsuki (month_part L r) r))
                (AList.update tsuki (month_part L r) r)) (rws df)"
  by (simp add: split_kubun_def set_column_def)

lemma kubun_mei_after_split:
  "cell_at (AList.update kubun v (AList.update tsuki w r)) kubun_mei = cell_at r kubun_mei"
  by (simp add: cell_at_update label_defs)

lemma month_part_after_split:
  "month_part L (AList.update kubun v (AList.update tsuki w r)) = month_part L r"
  by (simp add: month_part_def kubun_mei_after_split)

lemma tsuki_after_split:
  "cell_at (AList.update kubun v (AList.update tsuki w r)) tsuki = w"
  by (simp add: cell_at_update label_defs)

lemma column_split_kubun_tsuki:
  "column (split_kubun L df) tsuki = map (month_part L) (rws df)"
  by (simp add: column_def split_kubun_rws tsuki_after_split)

lemma column_split_kubun_kubun_mei:
  "column (split_kubun L df) kubun_mei = column df kubun_mei"
  by (simp add: column_def split_kubun_rws kubun_mei_after_split)

lemma length_split_kubun [simp]: "length (rws (split_kubun L df)) = length (rws df)"
  by (simp add: split_kubun_rws)

lemma columns_split_kubun: "set (columns (split_kubun L df)) = {tsuki, kubun} \<union> set (columns df)"
  by (auto simp: split_kubun_def set_columns_set_column)

lemma split_twice_tsuki:
  "column (split_kubun L (split_kubun L df)) tsuki = column (split_kubun L df) tsuki"
  by (simp add: column_split_kubun_tsuki split_kubun_rws month_part_after_split)

text \<open>The rows of the table at the second raise point have passed both filters.\<close>

lemma d3_rows_kept:
  assumes "r \<in> set (rws (split_kubun L (drop_excluded (dropna [kubun_mei] df))))"
  shows "\<not> isna (cell_at r kubun_mei) \<and> \<not> excluded (cell_at r kubun_mei)"
proof -
  from assms obtain r0 where
    r0: "r0 \<in> set (rws (drop_excluded (dropna [kubun_mei] df)))" and
    r: "r = AList.update kubun (category_part L (AList.update tsuki (month_part L r0) r0))
              (AList.update tsuki (month_part L r0) r0)"
    by (auto simp: split_kubun_rws)
  from r0 have "\<not> isna (cell_at r0 kubun_mei) \<and> \<not> excluded (cell_at r0 kubun_mei)"
    by (simp add: drop_excluded_def dropna_def)
  with r show ?thesis
    by (simp add: kubun_mei_after_split)
qed

lemma dropna_d3:
  "dropna [kubun_mei] (split_kubun L (drop_excluded (dropna [kubun_mei] df)))
     = split_kubun L (drop_excluded (dropna [kubun_mei] df))"
proof -
  let ?d3 = "split_kubun L (drop_excluded (dropna [kubun_mei] df))"
  have "\<forall>r\<in>set (rws ?d3). \<not> list_ex (\<lambda>c. isna (cell_at r c)) [kubun_mei]"
  proof
    fix r assume "r \<in> set (rws ?d3)"
    from d3_rows_kept[OF this] show "\<not> list_ex (\<lambda>c. isna (cell_at r c)) [kubun_mei]"
      by simp
  qed
  then have "filter (\<lambda>r. \<not> list_ex (\<lambda>c. isna (cell_at r c)) [kubun_mei]) (rws ?d3) = rws ?d3"
    by (rule filter_all)
  then show ?thesis
    unfolding dropna_def by simp
qed

lemma drop_excluded_d3:
  "drop_excluded (split_kubun L (drop_excluded (dropna [kubun_mei] df)))
     = split_kubun L (drop_excluded (dropna [kubun_mei] df))"
proof -
  let ?d3 = "split_kubun L (drop_excluded (dropna [kubun_mei] df))"
  have "\<forall>r\<in>set (rws ?d3). \<not> excluded (cell_at r kubun_mei)"
  proof
    fix r assume "r \<in> set (rws ?d3)"
    from d3_rows_kept[OF this] show "\<not> excluded (cell_at r kubun_mei)"
      by simp
  qed
  then have "filter (\<lambda>r. \<not> excluded (cell_at r kubun_mei)) (rws ?d3) = rws ?d3"
    by (rule filter_all)
  then show ?thesis
    unfolding drop_excluded_def by simp
qed

text \<open>
  Shaping again the table that a raise in the branch of the category name has left raises
  in that branch again, on a table with the same number of rows.
\<close>

lemma filter_kubun_again:
  assumes "filter_kubun L df = Inl (e, d)"
  shows "kubun_mei \<in> set (columns df) \<longrightarrow> kubun_mei \<in> set (columns d)"
    and "\<exists>e' d'. filter_kubun L d = Inl (e', d') \<and> length (rws d') = length (rws d)"
proof -
  let ?d1 = "dropna [kubun_mei] df"
  let ?d3 = "split_kubun L (drop_excluded ?d1)"
  from assms consider
    (isin) "isin_error L (column ?d1 kubun_mei) = Some e" "d = ?d1"
    | (month) "isin_error L (column ?d1 kubun_mei) = None"
        "first_error (month_number L) (column ?d3 tsuki) = Some e" "d = ?d3"
    unfolding filter_kubun_def Let_def by (auto split: option.splits)
  then have "(kubun_mei \<in> set (columns df) \<longrightarrow> kubun_mei \<in> set (columns d))
      \<and> (\<exists>e' d'. filter_kubun L d = Inl (e', d') \<and> length (rws d') = length (rws d))"
  proof cases
    case isin
    then have "filter_kubun L d = Inl (e, d)"
      by (simp add: filter_kubun_def Let_def dropna_idem)
    with isin show ?thesis by simp
  next
    case month
    have cols: "kubun_mei \<in> set (columns df) \<longrightarrow> kubun_mei \<in> set (columns d)"
      using month(3) by (simp add: columns_split_kubun)
    show ?thesis
    proof (cases "isin_error L (column d kubun_mei)")
      case (Some e')
      then have "filter_kubun L d = Inl (e', d)"
        using month(3) by (simp add: filter_kubun_def Let_def dropna_d3)
      with cols show ?thesis by blast
    next
      case None
      have "first_error (month_number L) (column (split_kubun L d) tsuki) = Some e"
        using month(2,3) by (simp add: split_twice_tsuki)
      then have "filter_kubun L d = Inl (e, split_kubun L d)"
        using None month(3)
        by (simp add: filter_kubun_def Let_def dropna_d3 drop_excluded_d3)
      with cols show ?thesis by simp
    qed
  qed
  then show "kubun_mei \<in> set (columns df) \<longrightarrow> kubun_mei \<in> set (columns d)"
    and "\<exists>e' d'. filter_kubun L d = Inl (e', d') \<and> length (rws d') = length (rws d)"
    by blast+
qed

text \<open>
  C8.  For every table and every behaviour of the library, shaping the shaped table again
  removes no further row.
\<close>

theorem shaping_twice_keeps_rows:
  "length (rws (shaping L (shaping L df))) = length (rws (shaping L df))"
proof -
  from shaping_cases[of L df] show ?thesis
  proof
    assume "kubun_mei \<notin> set (columns (shaping L df))"
    from shaping_without_kubun_mei[OF this, of L] show ?thesis by simp
  next
    assume a: "kubun_mei \<in> set (columns df) \<and> (\<exists>e. filter_kubun L df = Inl (e, shaping L df))"
    then obtain e where e: "filter_kubun L df = Inl (e, shaping L df)" by blast
    from filter_kubun_again[OF e] a obtain e' d' where
      k: "kubun_mei \<in> set (columns (shaping L df))" and
      f: "filter_kubun L (shaping L df) = Inl (e', d')" and
      l: "length (rws d') = length (rws (shaping L df))"
      by blast
    from k f have "shaping L (shaping L df) = d'"
      by (simp add: shaping_def[of L "shaping L df"] shaper_def)
    with l show ?thesis by simp
  qed
qed

lemmas sample_defs = scell_def jtxt_def ascii_def

text \<open>The run on the sample response with the category name that overflows.\<close>

lemma class_objs_overflow: "get_class_objs overflow_response = Inr overflow_classes"
  by (simp add: get_class_objs_def overflow_response_def envelope_def ascii_def)

lemma cat02_overflow:
  "class_table L overflow_classes (ascii ''cat02'')
     [(ascii ''@code'', kubun_code), (ascii ''@name'', kubun_mei),
      (ascii ''@parentCode'', oya_code)]
     [kubun_code, kubun_mei, oya_code] = Inr cat02_table"
  by (simp add: class_table_def overflow_classes_def class_obj_def DataFrame_def unique_def
      rename_cols_def new_name_def select_def restrict_row_def cell_at_def cat02_table_def
      sample_defs)
     (simp add: label_defs)

lemma cat03_overflow:
  "class_table L overflow_classes (ascii ''cat03'')
     [(ascii ''@code'', zeikan_code), (ascii ''@name'', zeikan)] [zeikan_code, zeikan]
     = Inr zeikan_table"
  by (simp add: class_table_def overflow_classes_def class_obj_def class_entry_def
      DataFrame_def unique_def rename_cols_def new_name_def select_def restrict_row_def
      cell_at_def zeikan_table_def sample_defs)
     (simp add: label_defs)

lemma area_overflow: "country_table L overflow_classes = Inr kuni_table"
  by (simp add: country_table_def overflow_classes_def class_obj_def class_entry_def
      DataFrame_def unique_def rename_cols_def new_name_def select_def restrict_row_def
      cell_at_def set_column_def country_name_def astype_str_def split_first_def
      kuni_table_def sample_defs)
     (simp add: label_defs)

lemma merge_chain_overflow:
  "merge_chain sample_lib two_rows cat02_table zeikan_table kuni_table labelled_codes
     = Inr overflow_table"
  by (simp add: merge_chain_def merge_left_def join_row_def column_def cell_at_def
      add_year_def year_cell_def value_of_def hs_as_str_def str_column_def set_column_def
      label_table_def select_def restrict_row_def drop_duplicates_def astype_str_def
      sample_lib_def number_cell_def ascii_digit_def two_rows_def plain_row_def
      cat02_table_def zeikan_table_def kuni_table_def
      labelled_codes_def overflow_table_def merged_row_def merged_columns_def
      label_defs sample_defs)

lemma merge_try_overflow:
  "merge_try sample_lib two_rows overflow_response labelled_codes = Inr overflow_table"
  by (simp add: merge_try_def class_objs_overflow cat02_overflow cat03_overflow
      area_overflow merge_chain_overflow)

lemma no_class_inf_overflow: "no_class_inf overflow_response = Inr False"
  by (simp add: no_class_inf_def overflow_response_def envelope_def ascii_def)

lemma resolver_overflow:
  "resolver sample_lib two_rows (Some overflow_response) labelled_codes = Inr overflow_table"
  by (simp add: resolver_def no_class_inf_overflow merge_try_overflow)

lemma frame_of_two_rows:
  "rename_cols value_columns
     \<lparr>columns = unique (concat (map dict_keys [value_row_of ''100'', value_row_of ''110''])),
      rws = map dict_row [value_row_of ''100'', value_row_of ''110'']\<rparr> = two_rows"
  by (simp add: rename_cols_def value_columns_def new_name_def value_row_of_def unique_def
      two_rows_def plain_row_def sample_defs)

lemma overflow_dropna: "dropna [kubun_mei] overflow_table = overflow_table"
  by (simp add: dropna_def overflow_table_def merged_row_def plain_row_def cell_at_def
      label_defs sample_defs)

lemma overflow_drop_excluded:
  "drop_excluded overflow_table =
     \<lparr>columns = merged_columns,
      rws = [merged_row ''110'' (scell ''99999999999999999999_x'')]\<rparr>"
  by (simp add: drop_excluded_def overflow_table_def merged_row_def plain_row_def cell_at_def
      excluded_def exclude_values_def label_defs sample_defs)

lemma overflow_split:
  "split_kubun sample_lib (drop_excluded overflow_table) = overflow_rest"
  by (simp add: overflow_drop_excluded overflow_rest_def split_kubun_def set_column_def
      month_part_def category_part_def astype_str_def split_first_def cell_at_def
      merged_row_def plain_row_def merged_columns_def label_defs sample_defs)

lemma overflow_month:
  "first_error (month_number sample_lib) (column overflow_rest tsuki) = Some OverflowError"
  by (simp add: overflow_rest_def column_def cell_at_def month_number_def extract_digits_def
      int_of_digits_def digit_value_def sample_lib_def ascii_digit_def merged_row_def
      plain_row_def label_defs sample_defs)

lemma overflow_isin: "isin_error sample_lib col = None"
  by (simp add: sample_lib_def)

lemma shaper_overflow_table:
  "shaper sample_lib overflow_table = Inl (OverflowError, overflow_rest)"
proof -
  have "kubun_mei \<in> set (columns overflow_table)"
    by (simp add: overflow_table_def merged_columns_def)
  moreover have "filter_kubun sample_lib overflow_table = Inl (OverflowError, overflow_rest)"
    by (simp add: filter_kubun_def Let_def overflow_dropna overflow_isin overflow_split
        overflow_month)
  ultimately show ?thesis
    by (simp add: shaper_def)
qed

lemma shaping_overflow_table: "shaping sample_lib overflow_table = overflow_rest"
  by (simp add: shaping_def shaper_overflow_table)

lemma body_overflow:
  "body_outcome overflow_response = Inr (Success [value_row_of ''100'', value_row_of ''110''])"
  by (simp add: body_outcome_def overflow_response_def envelope_def no_status_def
      get_status_def has_value_def get_value_def ascii_def)

lemma iteration_two_rows:
  "iteration init_state (c, Returns overflow_response) = two_rows_state"
  by (simp add: iteration_Returns body_overflow settle_def init_state_def two_rows_state_def)

lemma after_loop_two_rows:
  "after_loop sample_lib two_rows_state labelled_codes = Inr overflow_rest"
  by (simp add: after_loop_def two_rows_state_def DataFrame_def value_row_of_def)
     (simp add: frame_of_two_rows[unfolded value_row_of_def, simplified] resolver_overflow
        shaping_overflow_table)

lemma read_labelled_codes: "read_codes labelled_codes = Inr [ascii ''0101'']"
  by (simp add: read_codes_def labelled_codes_def column_def cell_at_def unique_def strip_def
      isspace_def label_defs sample_defs)

lemma run_overflow:
  "run sample_lib labelled_codes (\<lambda>code. Returns overflow_response) = Inr overflow_rest"
  by (simp add: run_def read_labelled_codes iteration_two_rows after_loop_two_rows)

lemma frame_of_value_row:
  "DataFrame L (JArr [value_row]) =
     Inr \<lparr>columns = [ascii ''@cat01'', ascii ''@cat02'', ascii ''@cat03'', ascii ''@area'',
                     ascii ''@time'', ascii ''$'', ascii ''@unit''],
          rws = [dict_row value_row]\<rparr>"
  by (simp add: DataFrame_def value_row_def unique_def sample_defs)

lemma rename_value_row:
  "rename_cols value_columns
     \<lparr>columns = [ascii ''@cat01'', ascii ''@cat02'', ascii ''@cat03'', ascii ''@area'',
                 ascii ''@time'', ascii ''$'', ascii ''@unit''],
      rws = [dict_row value_row]\<rparr> = values_table"
  by (simp add: rename_cols_def value_columns_def new_name_def value_row_def values_table_def
      sample_defs)

lemma no_class_inf_with_value: "no_class_inf (with_value v) = Inr True"
  by (simp add: no_class_inf_def with_value_def envelope_def ascii_def)

lemma resolver_values_table:
  "resolver L values_table (Some (with_value v)) df_hscode = Inr values_table"
  by (simp add: resolver_def no_class_inf_with_value)

lemma values_drop_year:
  "drop_cols [nen_code] values_table =
     \<lparr>columns = [HS_code, kubun_code, zeikan_code, kuni_code, atai, tani],
      rws = [[(HS_code, scell ''0101''), (kubun_code, scell ''110''),
              (zeikan_code, scell ''100''), (kuni_code, scell ''105''),
              (atai, scell ''12345''), (tani, scell ''KG'')]]\<rparr>"
  by (simp add: drop_cols_def values_table_def label_defs)

lemma sample_number: "sample_numeric (scell ''12345'') = Py (JInt 12345)"
  by (simp add: sample_numeric_def number_cell_def ascii_digit_def sample_defs)

lemma values_optimise:
  "optimise_types sample_lib
     \<lparr>columns = [HS_code, kubun_code, zeikan_code, kuni_code, atai, tani],
      rws = [[(HS_code, scell ''0101''), (kubun_code, scell ''110''),
              (zeikan_code, scell ''100''), (kuni_code, scell ''105''),
              (atai, scell ''12345''), (tani, scell ''KG'')]]\<rparr> =
     Inr \<lparr>columns = [HS_code, kubun_code, zeikan_code, kuni_code, atai, tani],
          rws = [[(HS_code, scell ''0101''), (kubun_code, scell ''110''),
                  (zeikan_code, scell ''100''), (kuni_code, scell ''105''),
                  (atai, Py (JInt 12345)), (tani, scell ''KG'')]]\<rparr>"
  by (simp add: optimise_types_def convert_column_def set_column_def column_def cell_at_def
      value_of_def as_str_def astype_str_def sample_lib_def sample_number label_defs)
     (simp add: scell_def)

lemma values_select:
  "select_existing final_cols_order
     \<lparr>columns = [HS_code, kubun_code, zeikan_code, kuni_code, atai, tani],
      rws = [[(HS_code, scell ''0101''), (kubun_code, scell ''110''),
              (zeikan_code, scell ''100''), (kuni_code, scell ''105''),
              (atai, Py (JInt 12345)), (tani, scell ''KG'')]]\<rparr> = plain_output"
  by (simp add: select_existing_def final_cols_order_def restrict_row_def cell_at_def
      plain_output_def label_defs)

lemma shaping_values_table: "shaping sample_lib values_table = plain_output"
proof -
  have "kubun_mei \<notin> set (columns values_table)"
    by (simp add: values_table_def label_defs)
  then show ?thesis
    by (simp add: shaping_def shaper_def finish_def values_drop_year values_optimise
        values_select)
qed

lemma after_loop_one_row: "after_loop sample_lib one_row_state df_hscode = Inr plain_output"
  by (simp add: after_loop_def one_row_state_def frame_of_value_row rename_value_row
      resolver_values_table shaping_values_table)

lemma iteration_one_row:
  "iteration init_state (ascii ''0101'', Returns (with_value (JArr [value_row])))
     = one_row_state"
  by (simp add: iteration_Returns outcome_sample_rows settle_def init_state_def
      one_row_state_def)


section \<open>Properties of the run\<close>













lemma new_name_kubun_mei:
  "new_name value_columns k = kubun_mei \<Longrightarrow> k = kubun_mei"
  by (simp add: new_name_def value_columns_def label_defs ascii_def split: if_splits)

lemma set_unique: "set (unique xs) = set xs"
  by (simp add: unique_def)

lemma distinct_unique: "distinct (unique xs)"
  by (simp add: unique_def)

lemma frame_of_dicts:
  "list_all is_dict xs \<Longrightarrow>
     DataFrame L (JArr xs) =
       Inr \<lparr>columns = unique (concat (map dict_keys xs)), rws = map dict_row xs\<rparr>"
  by (simp add: DataFrame_def)

lemma resolver_without_metadata:
  assumes "res_opt = None \<or> (\<exists>res. res_opt = Some res \<and> no_class_inf res = Inr True)"
  shows "resolver L df res_opt df_hscode = Inr df"
  using assms by (auto simp: resolver_def)

text \<open>
  C6, amended.  When no response is retained or the retained one has no \<open>CLASS_INF\<close>,
  and the value rows are dicts without the category name as a key, the run shows a table
  with one row for every value row and with no column beyond the renamed keys of the value
  rows: no enrichment column is added.
\<close>

theorem missing_metadata_keeps_rows_adds_no_column:
  assumes "data_list s \<noteq> []"
    and "list_all is_dict (data_list s)"
    and "kubun_mei \<notin> set (concat (map dict_keys (data_list s)))"
    and "result s = None \<or> (\<exists>res. result s = Some res \<and> no_class_inf res = Inr True)"
  shows "\<exists>out. after_loop L s df_hscode = Inr out
           \<and> length (rws out) = length (data_list s)
           \<and> set (columns out)
                \<subseteq> new_name value_columns ` set (concat (map dict_keys (data_list s)))"
proof -
  let ?raw = "\<lparr>columns = unique (concat (map dict_keys (data_list s))),
               rws = map dict_row (data_list s)\<rparr>"
  let ?df = "rename_cols value_columns ?raw"
  have f: "DataFrame L (JArr (data_list s)) = Inr ?raw"
    using assms(2) by (rule frame_of_dicts)
  have r: "resolver L ?df (result s) df_hscode = Inr ?df"
    using assms(4) by (rule resolver_without_metadata)
  have a: "after_loop L s df_hscode = Inr (shaping L ?df)"
    using assms(1) f r by (simp add: after_loop_def)
  have cols: "set (columns ?df)
      = new_name value_columns ` set (concat (map dict_keys (data_list s)))"
    by (simp add: rename_cols_def set_unique)
  have "kubun_mei \<notin> set (columns ?df)"
  proof
    assume "kubun_mei \<in> set (columns ?df)"
    with cols have "kubun_mei \<in> new_name value_columns `
        set (concat (map dict_keys (data_list s)))" by blast
    then obtain k where k: "k \<in> set (concat (map dict_keys (data_list s)))"
      and n: "kubun_mei = new_name value_columns k" by (rule imageE)
    from new_name_kubun_mei[OF n[symmetric]] k assms(3) show False by blast
  qed
  from shaping_without_kubun_mei[OF this, of L]
  have "length (rws (shaping L ?df)) = length (rws ?df)"
    and "set (columns (shaping L ?df)) \<subseteq> set (columns ?df)" by simp_all
  moreover have "length (rws ?df) = length (data_list s)"
    by (simp add: rename_cols_def)
  ultimately show ?thesis
    using a cols by simp
qed

theorem missing_metadata_keeps_rows_adds_no_column_witness:
  "after_loop sample_lib one_row_state labelled_codes = Inr plain_output
   \<and> length (rws plain_output) = length (data_list one_row_state)
   \<and> columns plain_output = [HS_code, kuni_code, zeikan_code, atai, tani]"
proof -
  have h1: "data_list one_row_state \<noteq> []"
    by (simp add: one_row_state_def)
  have h2: "list_all is_dict (data_list one_row_state)"
    by (simp add: one_row_state_def value_row_def)
  have h3: "kubun_mei \<notin> set (concat (map dict_keys (data_list one_row_state)))"
    by (simp add: one_row_state_def value_row_def label_defs ascii_def)
  have h4: "result one_row_state = None
      \<or> (\<exists>res. result one_row_state = Some res \<and> no_class_inf res = Inr True)"
    by (simp add: one_row_state_def no_class_inf_with_value)
  from missing_metadata_keeps_rows_adds_no_column[OF h1 h2 h3 h4, of sample_lib labelled_codes]
  show ?thesis
    by (simp add: after_loop_one_row) (simp add: plain_output_def one_row_state_def)
qed

text \<open>
  C6, as the specification states it (the enrichment columns present but empty), fails: for
  one value row and a retained response without \<open>CLASS_INF\<close>, the table shown has the
  columns of the HS code, the country code, the customs office code, the value and the
  unit, and none of the country name, the customs office, the category name, the category.
\<close>

theorem enrichment_columns_absent_counterexample:
  "no_class_inf (with_value (JArr [value_row])) = Inr True
   \<and> fetch_loop init_state [(ascii ''0101'', Returns (with_value (JArr [value_row])))]
       = one_row_state
   \<and> after_loop sample_lib one_row_state labelled_codes = Inr plain_output
   \<and> columns plain_output = [HS_code, kuni_code, zeikan_code, atai, tani]
   \<and> kuni_mei \<notin> set (columns plain_output)
   \<and> zeikan \<notin> set (columns plain_output)
   \<and> kubun_mei \<notin> set (columns plain_output)
   \<and> kubun \<notin> set (columns plain_output)"
  by (simp add: no_class_inf_with_value iteration_one_row after_loop_one_row)
     (simp add: plain_output_def label_defs)






lemma keep_codes_str:
  "list_all str_or_missing cs \<Longrightarrow>
     keep_codes cs = Inr (filter (\<lambda>s. strip s \<noteq> []) (str_values cs))"
  by (induction cs rule: keep_codes.induct) simp_all

lemma set_str_values: "set (str_values cs) = {s. Py (JStr s) \<in> set cs}"
  by (induction cs rule: str_values.induct) auto

lemma distinct_str_values: "distinct cs \<Longrightarrow> distinct (str_values cs)"
  by (induction cs rule: str_values.induct) (auto simp: set_str_values)

lemma read_codes_sample:
  "read_codes (codes_frame [ascii ''0101'', ascii '' 0101'', ascii ''0101'', ascii ''  ''])
     = Inr [ascii ''0101'', ascii '' 0101'']"
  by (simp add: read_codes_def codes_frame_def column_def cell_at_def unique_def strip_def
      isspace_def ascii_def)

text \<open>
  C4, amended.  For a column of HS codes read as str, the list of codes holds every
  distinct entry that is a str with something left after stripping, once, as it stands in
  the file (not stripped), in the order of first occurrence; the run stops with the
  no-valid-code message when that list is empty.
\<close>

theorem read_codes_distinct_nonblank:
  assumes "HS_code \<in> set (columns df_hscode)"
    and "list_all str_or_missing (column df_hscode HS_code)"
  shows "(let kept = filter (\<lambda>s. strip s \<noteq> [])
                      (str_values (unique (column df_hscode HS_code)))
          in read_codes df_hscode = (if kept = [] then Inl NoValidCode else Inr kept)
             \<and> distinct kept
             \<and> set kept = {s. Py (JStr s) \<in> set (column df_hscode HS_code) \<and> strip s \<noteq> []})"
proof -
  let ?col = "column df_hscode HS_code"
  from assms(2) have "list_all str_or_missing (unique ?col)"
    by (simp add: list_all_iff set_unique)
  then have "keep_codes (unique ?col) =
      Inr (filter (\<lambda>s. strip s \<noteq> []) (str_values (unique ?col)))"
    by (rule keep_codes_str)
  moreover have "distinct (str_values (unique ?col))"
    by (simp add: distinct_str_values distinct_unique)
  moreover have "set (str_values (unique ?col)) = {s. Py (JStr s) \<in> set ?col}"
    by (simp add: set_str_values set_unique)
  ultimately show ?thesis
    using assms(1) by (auto simp: read_codes_def Let_def)
qed

theorem read_codes_distinct_nonblank_witness:
  "read_codes (codes_frame [ascii ''0101'', ascii '' 0101'', ascii ''0101'', ascii ''  ''])
     = Inr [ascii ''0101'', ascii '' 0101'']
   \<and> distinct [ascii ''0101'', ascii '' 0101'']"
proof -
  let ?df = "codes_frame [ascii ''0101'', ascii '' 0101'', ascii ''0101'', ascii ''  '']"
  have h1: "HS_code \<in> set (columns ?df)"
    by (simp add: codes_frame_def)
  have h2: "list_all str_or_missing (column ?df HS_code)"
    by (simp add: codes_frame_def column_def cell_at_def)
  from read_codes_distinct_nonblank[OF h1 h2] show ?thesis
    by (simp add: Let_def read_codes_sample) (simp add: ascii_def)
qed

text \<open>
  C4, as the specification states it (each distinct trimmed identifier exactly once), fails:
  two entries that differ by a leading space are both kept, the second untrimmed, and they
  are one identifier after trimming.
\<close>

theorem untrimmed_codes_counterexample:
  "read_codes (codes_frame [ascii ''0101'', ascii '' 0101''])
     = Inr [ascii ''0101'', ascii '' 0101'']
   \<and> map strip [ascii ''0101'', ascii '' 0101''] = [ascii ''0101'', ascii ''0101'']"
  by (simp add: read_codes_def codes_frame_def column_def cell_at_def unique_def strip_def
      isspace_def ascii_def)


theorem shaping_twice_keeps_rows_witness:
  "length (rws (shaping sample_lib (shaping sample_lib overflow_table))) = 1"
  using shaping_twice_keeps_rows[of sample_lib overflow_table]
  by (simp add: shaping_overflow_table overflow_rest_def)

text \<open>
  C9.  The run goes on after an exception of the shaping, but not with the table as it was
  before the shaping.  On \<open>overflow_response\<close> the loop collects two value rows and
  the joins give \<open>overflow_table\<close>, which enters the shaping; the conversion of line
  260 raises after the row with the excluded category name is gone and the columns of the
  month and of the category are added, and that table of one row is what the run shows.
\<close>

theorem shaping_raise_leaves_partly_shaped_table:
  "run sample_lib labelled_codes (\<lambda>code. Returns overflow_response) = Inr overflow_rest
   \<and> fetch_loop init_state [(ascii ''0101'', Returns overflow_response)] = two_rows_state
   \<and> resolver sample_lib two_rows (result two_rows_state) labelled_codes = Inr overflow_table
   \<and> shaper sample_lib overflow_table = Inl (OverflowError, overflow_rest)
   \<and> length (rws overflow_table) = 2
   \<and> length (rws overflow_rest) = 1
   \<and> columns overflow_rest = columns overflow_table @ [tsuki, kubun]"
  by (simp add: run_overflow iteration_two_rows shaper_overflow_table)
     (simp add: two_rows_state_def resolver_overflow overflow_table_def overflow_rest_def)


end
